theory Spec2Isabelle
  imports Complex_Main
begin

section \<open>The landmark-to-metric geometry engine of golden.py\<close>

text \<open>
  A shallow embedding of \<^verbatim>\<open>golden.py\<close>: the module functions \<^verbatim>\<open>dist\<close>,
  \<^verbatim>\<open>safe_ratio\<close>, \<^verbatim>\<open>angle_deg\<close>, \<^verbatim>\<open>polyfit_curvature\<close>, \<^verbatim>\<open>create_metric\<close>,
  the class \<^verbatim>\<open>FaceAnalyzer\<close> and the entry point \<^verbatim>\<open>analyze_face_ratios\<close>.

  Python floats are modelled as real numbers, so rounding is not part of the model. The two
  non-finite results that the engine can produce from finite coordinates (in
  \<^verbatim>\<open>fifths_evenness\<close>, where numpy divides by a zero width) are values of their own.
  Python dictionaries are association lists in insertion order. An exception is a value
  of type \<open>exn\<close>; a function that can raise returns \<open>exn + 'a\<close>.
\<close>

subsection \<open>Values, dictionaries, exceptions\<close>

datatype pyval =
    PNone
  | PBool bool
  | PInt int
  | PFloat real
  | PNaN
  | PNegInf
  | PStr string
  | PList "pyval list"
  | PDict "(string \<times> pyval) list"

type_synonym pydict = "(string \<times> pyval) list"

type_synonym vec3 = "real \<times> real \<times> real"

datatype exn = KeyError string | TypeError string | AttributeError string

text \<open>\<^verbatim>\<open>str(e)\<close>: a \<^verbatim>\<open>KeyError\<close> prints the repr of its key, the others their message.\<close>

fun str_exn :: "exn \<Rightarrow> string" where
  "str_exn (KeyError k) = [CHR 0x27] @ k @ [CHR 0x27]"
| "str_exn (TypeError m) = m"
| "str_exn (AttributeError m) = m"

text \<open>
  The two library results that depend on more than the mathematics of their arguments are
  parameters of the model: \<^verbatim>\<open>np.polyfit\<close> (a least-squares solver; \<open>None\<close> is a raised
  exception) and \<^verbatim>\<open>traceback.format_exc\<close> (a text with file names and line numbers).
\<close>

record runtime =
  np_polyfit :: "real list \<Rightarrow> real list \<Rightarrow> nat \<Rightarrow> real list option"
  format_exc :: "exn \<Rightarrow> string"

text \<open>\<^verbatim>\<open>d[k] = v\<close>: an existing key keeps its position, a new key is appended.\<close>

fun py_setitem :: "(string \<times> 'v) list \<Rightarrow> string \<Rightarrow> 'v \<Rightarrow> (string \<times> 'v) list" where
  "py_setitem [] k v = [(k, v)]"
| "py_setitem ((k', v') # d) k v =
     (if k' = k then (k, v) # d else (k', v') # py_setitem d k v)"

text \<open>\<^verbatim>\<open>d.get(k, default)\<close> and \<^verbatim>\<open>k in d\<close>.\<close>

definition py_get :: "(string \<times> 'v) list \<Rightarrow> string \<Rightarrow> 'v \<Rightarrow> 'v" where
  "py_get d k dflt = (case map_of d k of None \<Rightarrow> dflt | Some v \<Rightarrow> v)"

definition py_in :: "string \<Rightarrow> (string \<times> 'v) list \<Rightarrow> bool" where
  "py_in k d = (map_of d k \<noteq> None)"

text \<open>
  \<^verbatim>\<open>a[i]\<close> on a numpy array or a list: a negative index counts from the end, and
  \<open>None\<close> is the \<^verbatim>\<open>IndexError\<close> of an index out of range.
\<close>

definition py_index :: "'a list \<Rightarrow> int \<Rightarrow> 'a option" where
  "py_index xs i =
     (let n = int (length xs); j = (if i < 0 then n + i else i)
      in if 0 \<le> j \<and> j < n then Some (xs ! nat j) else None)"

subsection \<open>Module constants\<close>

definition PHI :: real where
  "PHI = 161803398875 / 100000000000"

definition FALLBACK_INDICES :: "(string \<times> int) list" where
  "FALLBACK_INDICES =
    [(''chin_tip'', 152), (''nose_tip'', 4), (''subnasale'', 2),
     (''L_eye_outer'', 33), (''L_eye_inner'', 133), (''R_eye_inner'', 362),
     (''R_eye_outer'', 263), (''L_brow_inner'', 70), (''R_brow_inner'', 336),
     (''L_brow_outer'', 105), (''R_brow_outer'', 334), (''alare_L'', 234),
     (''alare_R'', 454), (''labiale_superius'', 13), (''labiale_inferius'', 14),
     (''stomion'', 0), (''cheilion_L'', 61), (''cheilion_R'', 291),
     (''L_pupil'', 468), (''R_pupil'', 473), (''gonion_L'', 172),
     (''gonion_R'', 397), (''menton'', 175), (''trichion'', 10), (''nasion'', 6),
     (''L_ear_top'', 93), (''R_ear_top'', 323), (''L_cheek'', 205), (''R_cheek'', 425)]"

subsection \<open>numpy and math functions on reals\<close>

definition vx :: "vec3 \<Rightarrow> real" where "vx p = fst p"
definition vy :: "vec3 \<Rightarrow> real" where "vy p = fst (snd p)"
definition vz :: "vec3 \<Rightarrow> real" where "vz p = snd (snd p)"

definition degrees :: "real \<Rightarrow> real" where
  "degrees r = r * 180 / pi"

text \<open>\<^verbatim>\<open>np.arctan2(y, x)\<close>, the angle of the point \<open>(x, y)\<close> in \<open>(-pi, pi]\<close>, with 0 at the origin.\<close>

definition arctan2 :: "real \<Rightarrow> real \<Rightarrow> real" where
  "arctan2 y x =
     (if 0 < x then arctan (y / x)
      else if x < 0 then (if 0 \<le> y then arctan (y / x) + pi else arctan (y / x) - pi)
      else if 0 < y then pi / 2
      else if y < 0 then - (pi / 2)
      else 0)"

definition np_clip :: "real \<Rightarrow> real \<Rightarrow> real \<Rightarrow> real" where
  "np_clip v lo hi = min hi (max lo v)"

definition np_mean :: "real list \<Rightarrow> real" where
  "np_mean xs = sum_list xs / real (length xs)"

text \<open>\<^verbatim>\<open>np.std\<close> is the population standard deviation.\<close>

definition np_std :: "real list \<Rightarrow> real" where
  "np_std xs = sqrt (np_mean (map (\<lambda>v. \<bar>v - np_mean xs\<bar>\<^sup>2) xs))"

definition norm3 :: "vec3 \<Rightarrow> real" where
  "norm3 p = sqrt ((vx p)\<^sup>2 + (vy p)\<^sup>2 + (vz p)\<^sup>2)"

definition dot3 :: "vec3 \<Rightarrow> vec3 \<Rightarrow> real" where
  "dot3 p q = vx p * vx q + vy p * vy q + vz p * vz q"

definition sub3 :: "vec3 \<Rightarrow> vec3 \<Rightarrow> vec3" where
  "sub3 p q = (vx p - vx q, vy p - vy q, vz p - vz q)"

definition add3 :: "vec3 \<Rightarrow> vec3 \<Rightarrow> vec3" where
  "add3 p q = (vx p + vx q, vy p + vy q, vz p + vz q)"

definition div3 :: "vec3 \<Rightarrow> real \<Rightarrow> vec3" where
  "div3 p c = (vx p / c, vy p / c, vz p / c)"

subsection \<open>Module functions\<close>

definition dist :: "vec3 \<Rightarrow> vec3 \<Rightarrow> string \<Rightarrow> real" where
  "dist p1 p2 mode =
     (if mode = ''2D'' then sqrt ((vx p1 - vx p2)\<^sup>2 + (vy p1 - vy p2)\<^sup>2)
      else norm3 (sub3 p1 p2))"

definition safe_ratio :: "real \<Rightarrow> real \<Rightarrow> real \<Rightarrow> real option" where
  "safe_ratio num denom eps = (if \<bar>denom\<bar> < eps then None else Some (num / denom))"

definition angle_deg :: "vec3 \<Rightarrow> vec3 \<Rightarrow> vec3 \<Rightarrow> real" where
  "angle_deg p1 vertex p2 =
     (let v1 = sub3 p1 vertex;
          v2 = sub3 p2 vertex;
          cos_angle = dot3 v1 v2 / (norm3 v1 * norm3 v2 + 1 / 10^8);
          cos_angle = np_clip cos_angle (-1) 1
      in degrees (arccos cos_angle))"

definition polyfit_curvature :: "runtime \<Rightarrow> (real \<times> real) list \<Rightarrow> nat \<Rightarrow> real" where
  "polyfit_curvature rt pts degree =
     (if length pts < degree + 1 then 0
      else (case np_polyfit rt (map fst pts) (map snd pts) degree of
              None \<Rightarrow> 0
            | Some coeffs \<Rightarrow>
                (if 2 \<le> degree then (case coeffs of [] \<Rightarrow> 0 | c # _ \<Rightarrow> \<bar>2 * c\<bar>) else 0)))"

definition create_metric :: "pyval \<Rightarrow> string \<Rightarrow> string list \<Rightarrow> bool \<Rightarrow> real \<Rightarrow> pyval" where
  "create_metric v method source_points valid confidence =
     PDict [(''value'', v), (''method'', PStr method),
            (''source_points'', PList (map PStr source_points)),
            (''valid'', PBool valid), (''confidence'', PFloat confidence)]"

text \<open>\<^verbatim>\<open>create_metric\<close> called with its defaults \<^verbatim>\<open>valid=True, confidence=1.0\<close>.\<close>

definition metric :: "pyval \<Rightarrow> string \<Rightarrow> string list \<Rightarrow> pyval" where
  "metric v method source_points = create_metric v method source_points True 1"

text \<open>An \<^verbatim>\<open>Optional[float]\<close> as a Python value.\<close>

fun opt_float :: "real option \<Rightarrow> pyval" where
  "opt_float None = PNone"
| "opt_float (Some r) = PFloat r"

subsection \<open>Input records\<close>

text \<open>
  A landmark and a blendshape are dictionaries; a field is \<open>None\<close> when its key is absent.
  The coordinates are read with \<^verbatim>\<open>lm['x']\<close> (a missing key raises), the confidence
  signals with \<^verbatim>\<open>lm.get('visibility', 1.0)\<close>.
\<close>

record landmark =
  lm_x :: "real option"
  lm_y :: "real option"
  lm_z :: "real option"
  lm_visibility :: "real option"
  lm_presence :: "real option"

record blendshape =
  bs_category_name :: "string option"
  bs_score :: "real option"

subsection \<open>The analyzer object\<close>

text \<open>
  The attributes of \<^verbatim>\<open>FaceAnalyzer\<close>. \<^verbatim>\<open>structure\<close> is the one attribute that
  \<^verbatim>\<open>analyze\<close> assigns and another method reads back; it is \<open>None\<close> until assigned. The
  other attributes assigned by \<^verbatim>\<open>analyze\<close> are read only by \<^verbatim>\<open>analyze\<close> itself and are
  bound there.
\<close>

record face_analyzer =
  landmarks :: "landmark list"
  blendshapes :: "blendshape list"
  index_map :: "(string \<times> int) list"
  fallback_indices_used :: bool
  visibility_threshold :: real
  eps :: real
  points :: "vec3 list"
  visibility :: "real list"
  scale_basis :: real
  self_structure :: "pydict option"

definition lm_coords :: "landmark \<Rightarrow> exn + vec3" where
  "lm_coords lm =
     (case lm_x lm of None \<Rightarrow> Inl (KeyError ''x'') | Some x \<Rightarrow>
      (case lm_y lm of None \<Rightarrow> Inl (KeyError ''y'') | Some y \<Rightarrow>
       (case lm_z lm of None \<Rightarrow> Inl (KeyError ''z'') | Some z \<Rightarrow> Inr (x, y, z))))"

text \<open>The list comprehension over the landmarks stops at the first landmark that raises.\<close>

fun collect_points :: "landmark list \<Rightarrow> exn + vec3 list" where
  "collect_points [] = Inr []"
| "collect_points (lm # lms) =
     (case lm_coords lm of Inl e \<Rightarrow> Inl e
      | Inr p \<Rightarrow> (case collect_points lms of Inl e \<Rightarrow> Inl e | Inr ps \<Rightarrow> Inr (p # ps)))"

definition get_visibility :: "landmark \<Rightarrow> real" where
  "get_visibility lm = (case lm_visibility lm of None \<Rightarrow> 1 | Some v \<Rightarrow> v)"

definition get_presence :: "landmark \<Rightarrow> real" where
  "get_presence lm = (case lm_presence lm of None \<Rightarrow> 1 | Some v \<Rightarrow> v)"

text \<open>
  Row \<open>p\<close> of \<^verbatim>\<open>np.dot(points, rot_matrix.T)\<close>: the matrix applied to the point.
  In roll correction \<^verbatim>\<open>np.arctan2\<close>, \<^verbatim>\<open>np.cos\<close>, \<^verbatim>\<open>np.sin\<close> and the
  products are the exact real functions: the rounding of the double-precision computation
  is not represented, so no property below bounds a rounding error.
\<close>

definition dot_T :: "vec3 \<Rightarrow> vec3 \<times> vec3 \<times> vec3 \<Rightarrow> vec3" where
  "dot_T p m = (case m of (r1, r2, r3) \<Rightarrow> (dot3 p r1, dot3 p r2, dot3 p r3))"

definition apply_roll_correction :: "face_analyzer \<Rightarrow> face_analyzer" where
  "apply_roll_correction self =
     (case py_index (points self) (py_get (index_map self) ''L_eye_outer'' 33) of
        None \<Rightarrow> self
      | Some left_eye \<Rightarrow>
         (case py_index (points self) (py_get (index_map self) ''R_eye_outer'' 263) of
            None \<Rightarrow> self
          | Some right_eye \<Rightarrow>
             (let dx = vx right_eye - vx left_eye;
                  dy = vy right_eye - vy left_eye;
                  roll_angle = arctan2 dy dx;
                  cos_r = cos (- roll_angle);
                  sin_r = sin (- roll_angle);
                  rot_matrix = ((cos_r, - sin_r, 0), (sin_r, cos_r, 0), (0, 0, 1))
              in self\<lparr>points := map (\<lambda>p. dot_T p rot_matrix) (points self)\<rparr>)))"

text \<open>
  One \<^verbatim>\<open>try\<close> block of \<^verbatim>\<open>_compute_scale_basis\<close>: the 2D distance of two points read by
  index, \<open>None\<close> when an index is out of range (the block's \<^verbatim>\<open>except: pass\<close>).
\<close>

definition indexed_dist :: "face_analyzer \<Rightarrow> string \<Rightarrow> int \<Rightarrow> string \<Rightarrow> int \<Rightarrow> real option" where
  "indexed_dist self l dl r dr =
     (case py_index (points self) (py_get (index_map self) l dl) of
        None \<Rightarrow> None
      | Some pl \<Rightarrow>
         (case py_index (points self) (py_get (index_map self) r dr) of
            None \<Rightarrow> None
          | Some pr \<Rightarrow> Some (dist pl pr ''2D'')))"

definition compute_scale_basis :: "face_analyzer \<Rightarrow> real" where
  "compute_scale_basis self =
     (let eye = (case indexed_dist self ''L_eye_outer'' 33 ''R_eye_outer'' 263 of
                   None \<Rightarrow> None
                 | Some eye_width \<Rightarrow> if eye_width > eps self then Some eye_width else None)
      in case eye of
           Some eye_width \<Rightarrow> eye_width
         | None \<Rightarrow>
            (let face = (case indexed_dist self ''L_cheek'' 205 ''R_cheek'' 425 of
                           None \<Rightarrow> None
                         | Some face_width \<Rightarrow>
                             if face_width > eps self then Some face_width else None)
             in case face of Some face_width \<Rightarrow> face_width | None \<Rightarrow> 1))"

text \<open>
  \<^verbatim>\<open>FaceAnalyzer.__init__\<close>. \<^verbatim>\<open>index_map or FALLBACK_INDICES\<close> takes the fallback table
  for \<^verbatim>\<open>None\<close> and for an empty dictionary; \<^verbatim>\<open>blendshapes or []\<close> likewise.
\<close>

definition init :: "landmark list \<Rightarrow> blendshape list option \<Rightarrow> (string \<times> int) list option
    \<Rightarrow> exn + face_analyzer" where
  "init lms bs im =
     (case collect_points lms of
        Inl e \<Rightarrow> Inl e
      | Inr pts \<Rightarrow>
         (let visibility_values = map get_visibility lms;
              vis = (if list_all (\<lambda>v. v = 0) visibility_values
                     then map get_presence lms else visibility_values);
              self = \<lparr>landmarks = lms,
                      blendshapes = (case bs of None \<Rightarrow> [] | Some b \<Rightarrow> b),
                      index_map = (case im of None \<Rightarrow> FALLBACK_INDICES
                                   | Some m \<Rightarrow> if m = [] then FALLBACK_INDICES else m),
                      fallback_indices_used = (im = None),
                      visibility_threshold = 3 / 10,
                      eps = 1 / 10^8,
                      points = pts,
                      visibility = vis,
                      scale_basis = 0,
                      self_structure = None\<rparr>;
              self = apply_roll_correction self
          in Inr (self\<lparr>scale_basis := compute_scale_basis self\<rparr>)))"

definition get_point :: "face_analyzer \<Rightarrow> string \<Rightarrow> vec3 option" where
  "get_point self name =
     (case map_of (index_map self) name of
        None \<Rightarrow> None
      | Some idx \<Rightarrow>
         (if idx \<ge> int (length (points self)) then None
          else if \<not> list_all (\<lambda>v. v = 0) (visibility self) then
            (case py_index (visibility self) idx of
               None \<Rightarrow> None
             | Some v \<Rightarrow>
                 if v < visibility_threshold self then None
                 else py_index (points self) idx)
          else py_index (points self) idx))"

definition compute_glabella :: "face_analyzer \<Rightarrow> vec3 option" where
  "compute_glabella self =
     (case (get_point self ''L_brow_inner'', get_point self ''R_brow_inner'') of
        (Some left_brow, Some right_brow) \<Rightarrow> Some (div3 (add3 left_brow right_brow) 2)
      | _ \<Rightarrow> None)"

text \<open>\<^verbatim>\<open>safe_ratio\<close> called with its default \<^verbatim>\<open>eps=1e-8\<close>.\<close>

definition ratio :: "real \<Rightarrow> real \<Rightarrow> real option" where
  "ratio num denom = safe_ratio num denom (1 / 10^8)"

subsection \<open>Eyes\<close>

text \<open>The body of the first loop of \<^verbatim>\<open>analyze_eyes\<close>, for one side.\<close>

definition eyes_side :: "face_analyzer \<Rightarrow> string \<Rightarrow> pydict \<Rightarrow> pydict" where
  "eyes_side self side eyes =
     (case (get_point self (side @ ''_eye_outer''), get_point self (side @ ''_eye_inner'')) of
        (Some outer, Some inner) \<Rightarrow>
          (let fissure_length = dist outer inner ''2D'' / scale_basis self;
               eyes = py_setitem eyes (''fissure_length_'' @ side)
                        (metric (PFloat fissure_length) ''2D''
                           [side @ ''_eye_outer'', side @ ''_eye_inner'']);
               dy = vy outer - vy inner;
               dx = \<bar>vx outer - vx inner\<bar>;
               tilt_deg = (if side = ''L'' then degrees (arctan2 dy dx)
                           else degrees (arctan2 dy dx))
           in py_setitem eyes (''canthal_tilt_deg_'' @ side)
                (metric (PFloat tilt_deg) ''2D''
                   [side @ ''_eye_outer'', side @ ''_eye_inner'']))
      | _ \<Rightarrow> eyes)"

definition eyes_intercanthal :: "face_analyzer \<Rightarrow> pydict \<Rightarrow> pydict" where
  "eyes_intercanthal self eyes =
     (case (get_point self ''L_eye_inner'', get_point self ''R_eye_inner'',
            get_point self ''L_eye_outer'', get_point self ''R_eye_outer'') of
        (Some left_inner, Some right_inner, Some left_outer, Some right_outer) \<Rightarrow>
          (let intercanthal = dist left_inner right_inner ''2D'';
               eye_width_total = dist left_outer right_outer ''2D''
           in case ratio intercanthal eye_width_total of
                Some ipd_ratio \<Rightarrow>
                  py_setitem eyes ''intercanthal_over_eye_width''
                    (metric (PFloat ipd_ratio) ''2D''
                       [''L_eye_inner'', ''R_eye_inner'', ''L_eye_outer'', ''R_eye_outer''])
              | None \<Rightarrow> eyes)
      | _ \<Rightarrow> eyes)"

text \<open>The body of the brow loop, for one side.\<close>

definition eyes_brow :: "face_analyzer \<Rightarrow> string \<Rightarrow> pydict \<Rightarrow> pydict" where
  "eyes_brow self side eyes =
     (case (get_point self (side @ ''_brow_inner''), get_point self (side @ ''_brow_outer''),
            get_point self (side @ ''_eye_inner'')) of
        (Some brow_inner, Some brow_outer, Some eye_center) \<Rightarrow>
          (let brow_height = \<bar>vy brow_inner - vy eye_center\<bar> / scale_basis self;
               eyes = py_setitem eyes (''brow_height_'' @ side)
                        (metric (PFloat brow_height) ''2D''
                           [side @ ''_brow_inner'', side @ ''_eye_inner'']);
               slope = (vy brow_outer - vy brow_inner)
                         / (\<bar>vx brow_outer - vx brow_inner\<bar> + eps self)
           in py_setitem eyes (''brow_slope_'' @ side)
                (metric (PFloat slope) ''2D''
                   [side @ ''_brow_inner'', side @ ''_brow_outer'']))
      | _ \<Rightarrow> eyes)"

definition analyze_eyes :: "face_analyzer \<Rightarrow> pydict" where
  "analyze_eyes self =
     (let eyes = [];
          eyes = fold (eyes_side self) [''L'', ''R''] eyes;
          eyes = eyes_intercanthal self eyes;
          eyes = fold (eyes_brow self) [''L'', ''R''] eyes
      in eyes)"

subsection \<open>Nose\<close>

definition nose_alar :: "face_analyzer \<Rightarrow> pydict \<Rightarrow> pydict" where
  "nose_alar self nose =
     (case (get_point self ''alare_L'', get_point self ''alare_R'') of
        (Some alare_l, Some alare_r) \<Rightarrow>
          (let alar_width = dist alare_l alare_r ''2D''
           in case (get_point self ''L_eye_inner'', get_point self ''R_eye_inner'') of
                (Some left_eye_inner, Some right_eye_inner) \<Rightarrow>
                  (let inter_eye = dist left_eye_inner right_eye_inner ''2D''
                   in py_setitem nose ''alar_width_over_inter_eye''
                        (metric (opt_float (ratio alar_width inter_eye)) ''2D''
                           [''alare_L'', ''alare_R'', ''L_eye_inner'', ''R_eye_inner'']))
              | _ \<Rightarrow>
                  py_setitem nose ''alar_width_normalized''
                    (metric (PFloat (alar_width / scale_basis self)) ''2D''
                       [''alare_L'', ''alare_R'']))
      | _ \<Rightarrow> nose)"

definition nose_length :: "face_analyzer \<Rightarrow> pydict \<Rightarrow> pydict" where
  "nose_length self nose =
     (case (get_point self ''nasion'', get_point self ''subnasale'') of
        (Some nasion, Some subnasale) \<Rightarrow>
          (let nasal_length = dist nasion subnasale ''2D''
           in case get_point self ''chin_tip'' of
                Some chin_tip \<Rightarrow>
                  (let face_height = dist nasion chin_tip ''2D''
                   in case ratio nasal_length face_height of
                        Some r \<Rightarrow>
                          py_setitem nose ''nasal_length_over_face_height''
                            (metric (PFloat r) ''2D'' [''nasion'', ''subnasale'', ''chin_tip''])
                      | None \<Rightarrow> nose)
              | None \<Rightarrow> nose)
      | _ \<Rightarrow> nose)"

definition nose_tip_projection :: "face_analyzer \<Rightarrow> pydict \<Rightarrow> pydict" where
  "nose_tip_projection self nose =
     (case (get_point self ''nose_tip'', get_point self ''subnasale'') of
        (Some nose_tip, Some subnasale) \<Rightarrow>
          (let projection = \<bar>vz nose_tip - vz subnasale\<bar>
           in py_setitem nose ''tip_projection_3D_over_IPD''
                (metric (PFloat (projection / scale_basis self)) ''3D''
                   [''nose_tip'', ''subnasale'']))
      | _ \<Rightarrow> nose)"

definition nose_nasolabial :: "face_analyzer \<Rightarrow> pydict \<Rightarrow> pydict" where
  "nose_nasolabial self nose =
     (case (get_point self ''nose_tip'', get_point self ''subnasale'') of
        (Some nose_tip, Some subnasale) \<Rightarrow>
          (case get_point self ''labiale_superius'' of
             Some upper_lip \<Rightarrow>
               (let angle = angle_deg nose_tip subnasale upper_lip
                in py_setitem nose ''nasal_tip_to_upper_lip_angle_deg''
                     (metric (PFloat angle) ''2D''
                        [''nose_tip'', ''subnasale'', ''labiale_superius'']))
           | None \<Rightarrow> nose)
      | _ \<Rightarrow> nose)"

definition analyze_nose :: "face_analyzer \<Rightarrow> pydict" where
  "analyze_nose self =
     (let nose = [];
          nose = nose_alar self nose;
          nose = nose_length self nose;
          nose = nose_tip_projection self nose;
          nose = nose_nasolabial self nose
      in nose)"

subsection \<open>Mouth\<close>

definition mouth_width :: "runtime \<Rightarrow> face_analyzer \<Rightarrow> pydict \<Rightarrow> pydict" where
  "mouth_width rt self mouth =
     (case (get_point self ''cheilion_L'', get_point self ''cheilion_R'') of
        (Some left_corner, Some right_corner) \<Rightarrow>
          (let mouth_width = dist left_corner right_corner ''2D'';
               mouth = py_setitem mouth ''mouth_width_over_IPD''
                         (metric (PFloat (mouth_width / scale_basis self)) ''2D''
                            [''cheilion_L'', ''cheilion_R''])
           in case get_point self ''stomion'' of
                Some stomion \<Rightarrow>
                  (let arc_points = [(vx left_corner, vy left_corner),
                                     (vx stomion, vy stomion),
                                     (vx right_corner, vy right_corner)];
                       curvature = polyfit_curvature rt arc_points 2
                   in py_setitem mouth ''smile_arc_curvature''
                        (metric (PFloat curvature) ''2D''
                           [''cheilion_L'', ''stomion'', ''cheilion_R'']))
              | None \<Rightarrow> mouth)
      | _ \<Rightarrow> mouth)"

definition mouth_lips :: "face_analyzer \<Rightarrow> pydict \<Rightarrow> pydict" where
  "mouth_lips self mouth =
     (case (get_point self ''labiale_superius'', get_point self ''labiale_inferius'',
            get_point self ''stomion'') of
        (Some upper_lip, Some lower_lip, Some stomion) \<Rightarrow>
          (let upper_thickness = dist upper_lip stomion ''2D'';
               lower_thickness = dist stomion lower_lip ''2D''
           in case ratio upper_thickness lower_thickness of
                Some r \<Rightarrow>
                  py_setitem mouth ''upper_to_lower_lip_ratio''
                    (metric (PFloat r) ''2D''
                       [''labiale_superius'', ''stomion'', ''labiale_inferius''])
              | None \<Rightarrow> mouth)
      | _ \<Rightarrow> mouth)"

definition mouth_bow :: "face_analyzer \<Rightarrow> pydict \<Rightarrow> pydict" where
  "mouth_bow self mouth =
     (case (get_point self ''labiale_superius'', get_point self ''stomion'') of
        (Some upper_lip, Some stomion) \<Rightarrow>
          (let bow_depth = \<bar>vy upper_lip - vy stomion\<bar> / scale_basis self
           in py_setitem mouth ''cupid_bow_depth''
                (metric (PFloat bow_depth) ''2D'' [''labiale_superius'', ''stomion'']))
      | _ \<Rightarrow> mouth)"

definition analyze_mouth :: "runtime \<Rightarrow> face_analyzer \<Rightarrow> pydict" where
  "analyze_mouth rt self =
     (let mouth = [];
          mouth = mouth_width rt self mouth;
          mouth = mouth_lips self mouth;
          mouth = mouth_bow self mouth
      in mouth)"

subsection \<open>Structure\<close>

definition structure_thirds :: "face_analyzer \<Rightarrow> pydict \<Rightarrow> pydict" where
  "structure_thirds self structure =
     (case (compute_glabella self, get_point self ''subnasale'', get_point self ''chin_tip'') of
        (Some glabella, Some subnasale, Some chin_tip) \<Rightarrow>
          (let nasion = get_point self ''nasion'';
               upper_third = (case nasion of Some n \<Rightarrow> dist glabella n ''2D'' | None \<Rightarrow> 0);
               middle_third = (case nasion of Some n \<Rightarrow> dist n subnasale ''2D'' | None \<Rightarrow> 0);
               lower_third = dist subnasale chin_tip ''2D''
           in if middle_third > eps self then
                (let structure = py_setitem structure ''upper_to_middle_third''
                                   (metric (opt_float (ratio upper_third middle_third)) ''2D''
                                      [''glabella'', ''nasion'', ''subnasale''])
                 in py_setitem structure ''lower_to_middle_third''
                      (metric (opt_float (ratio lower_third middle_third)) ''2D''
                         [''subnasale'', ''chin_tip'', ''nasion'']))
              else structure)
      | _ \<Rightarrow> structure)"

definition structure_height_width :: "face_analyzer \<Rightarrow> pydict \<Rightarrow> pydict" where
  "structure_height_width self structure =
     (case (get_point self ''chin_tip'', get_point self ''nasion'') of
        (Some chin_tip, Some nasion) \<Rightarrow>
          (let face_height = dist nasion chin_tip ''2D''
           in case (get_point self ''L_cheek'', get_point self ''R_cheek'') of
                (Some left_cheek, Some right_cheek) \<Rightarrow>
                  (let face_width = dist left_cheek right_cheek ''2D''
                   in case ratio face_height face_width of
                        Some r \<Rightarrow>
                          py_setitem structure ''face_height_over_width''
                            (metric (PFloat r) ''2D''
                               [''nasion'', ''chin_tip'', ''L_cheek'', ''R_cheek''])
                      | None \<Rightarrow> structure)
              | _ \<Rightarrow> structure)
      | _ \<Rightarrow> structure)"

definition structure_jaw :: "face_analyzer \<Rightarrow> pydict \<Rightarrow> pydict" where
  "structure_jaw self structure =
     (case (get_point self ''gonion_L'', get_point self ''gonion_R'') of
        (Some gonion_l, Some gonion_r) \<Rightarrow>
          (let gonial_width = dist gonion_l gonion_r ''2D'' / scale_basis self;
               structure = py_setitem structure ''gonial_width_normalized''
                             (metric (PFloat gonial_width) ''2D'' [''gonion_L'', ''gonion_R''])
           in case get_point self ''menton'' of
                Some menton \<Rightarrow>
                  (let angle = angle_deg gonion_l menton gonion_r
                   in py_setitem structure ''mandibular_angle_deg''
                        (metric (PFloat angle) ''2D'' [''gonion_L'', ''menton'', ''gonion_R'']))
              | None \<Rightarrow> structure)
      | _ \<Rightarrow> structure)"

definition structure_chin :: "face_analyzer \<Rightarrow> pydict \<Rightarrow> pydict" where
  "structure_chin self structure =
     (case (get_point self ''chin_tip'', get_point self ''subnasale'') of
        (Some chin_tip, Some subnasale) \<Rightarrow>
          (let chin_projection = \<bar>vz chin_tip - vz subnasale\<bar> / scale_basis self
           in py_setitem structure ''chin_prominence_3D''
                (metric (PFloat chin_projection) ''3D'' [''chin_tip'', ''subnasale'']))
      | _ \<Rightarrow> structure)"

definition analyze_structure :: "face_analyzer \<Rightarrow> pydict" where
  "analyze_structure self =
     (let structure = [];
          structure = structure_thirds self structure;
          structure = structure_height_width self structure;
          structure = structure_jaw self structure;
          structure = structure_chin self structure
      in structure)"

subsection \<open>Symmetry\<close>

definition symmetry_pairs :: "(string \<times> string) list" where
  "symmetry_pairs =
     [(''L_eye_outer'', ''R_eye_outer''), (''L_eye_inner'', ''R_eye_inner''),
      (''L_brow_inner'', ''R_brow_inner''), (''L_brow_outer'', ''R_brow_outer''),
      (''alare_L'', ''alare_R''), (''cheilion_L'', ''cheilion_R''),
      (''gonion_L'', ''gonion_R'')]"

text \<open>
  The body of the loop over the pairs; the loop state is the list
  \<^verbatim>\<open>midline_deviations\<close> and the dictionary \<^verbatim>\<open>bilateral_deltas\<close>.
\<close>

definition symmetry_pair :: "face_analyzer \<Rightarrow> string \<times> string \<Rightarrow> real list \<times> pydict
    \<Rightarrow> real list \<times> pydict" where
  "symmetry_pair self pair acc =
     (case pair of (left_name, right_name) \<Rightarrow>
      (case acc of (midline_deviations, bilateral_deltas) \<Rightarrow>
       (case (get_point self left_name, get_point self right_name) of
          (Some left_pt, Some right_pt) \<Rightarrow>
            (let midpoint = div3 (add3 left_pt right_pt) 2;
                 midline_dev = \<bar>vx midpoint - 1 / 2\<bar> / scale_basis self;
                 midline_deviations = midline_deviations @ [midline_dev];
                 left_dist = \<bar>vx left_pt\<bar>;
                 right_dist = \<bar>vx right_pt\<bar>;
                 delta = \<bar>left_dist - right_dist\<bar> / scale_basis self
             in (midline_deviations,
                 py_setitem bilateral_deltas (left_name @ ''_vs_'' @ right_name) (PFloat delta)))
        | _ \<Rightarrow> acc)))"

definition analyze_symmetry :: "face_analyzer \<Rightarrow> pydict" where
  "analyze_symmetry self =
     (let symmetry = [];
          pairs = symmetry_pairs;
          (midline_deviations, bilateral_deltas) = fold (symmetry_pair self) pairs ([], []);
          symmetry =
            (if midline_deviations \<noteq> [] then
               (let avg_deviation = np_mean midline_deviations;
                    score = max 0 (min 1 (1 - avg_deviation / 5))
                in py_setitem symmetry ''midline_symmetry_score''
                     (metric (PFloat score) ''2D'' (map fst pairs @ map snd pairs)))
             else symmetry)
      in py_setitem symmetry ''bilateral_feature_deltas'' (PDict bilateral_deltas))"

subsection \<open>Profile\<close>

definition profile_e_line :: "face_analyzer \<Rightarrow> pydict \<Rightarrow> pydict" where
  "profile_e_line self profile =
     (case (get_point self ''nose_tip'', get_point self ''chin_tip'') of
        (Some nose_tip, Some chin_tip) \<Rightarrow>
          (let profile =
                 (case get_point self ''labiale_superius'' of
                    Some upper_lip \<Rightarrow>
                      (let e_line_upper = \<bar>vz upper_lip - (vz nose_tip + vz chin_tip) / 2\<bar>
                       in py_setitem profile ''e_line_upper_lip''
                            (metric (PFloat (e_line_upper / scale_basis self)) ''3D''
                               [''nose_tip'', ''chin_tip'', ''labiale_superius'']))
                  | None \<Rightarrow> profile);
               profile =
                 (case get_point self ''labiale_inferius'' of
                    Some lower_lip \<Rightarrow>
                      (let e_line_lower = \<bar>vz lower_lip - (vz nose_tip + vz chin_tip) / 2\<bar>
                       in py_setitem profile ''e_line_lower_lip''
                            (metric (PFloat (e_line_lower / scale_basis self)) ''3D''
                               [''nose_tip'', ''chin_tip'', ''labiale_inferius'']))
                  | None \<Rightarrow> profile);
               tip_projection = \<bar>vz nose_tip\<bar>;
               chin_projection = \<bar>vz chin_tip\<bar>
           in case ratio tip_projection chin_projection of
                Some r \<Rightarrow>
                  py_setitem profile ''tip_projection_over_chin_projection''
                    (metric (PFloat r) ''3D'' [''nose_tip'', ''chin_tip''])
              | None \<Rightarrow> profile)
      | _ \<Rightarrow> profile)"

definition profile_midface :: "face_analyzer \<Rightarrow> pydict \<Rightarrow> pydict" where
  "profile_midface self profile =
     (case (get_point self ''L_cheek'', get_point self ''R_cheek'') of
        (Some left_cheek, Some right_cheek) \<Rightarrow>
          (let midface_depth = (\<bar>vz left_cheek\<bar> + \<bar>vz right_cheek\<bar>) / 2;
               face_width = dist left_cheek right_cheek ''2D''
           in case ratio midface_depth face_width of
                Some r \<Rightarrow>
                  py_setitem profile ''midface_depth_over_face_width''
                    (metric (PFloat r) ''3D'' [''L_cheek'', ''R_cheek''])
              | None \<Rightarrow> profile)
      | _ \<Rightarrow> profile)"

definition analyze_profile :: "face_analyzer \<Rightarrow> pydict" where
  "analyze_profile self =
     (let profile = [];
          profile = profile_e_line self profile;
          profile = profile_midface self profile
      in profile)"

subsection \<open>Golden-ratio diagnostics\<close>

definition golden_eye_mouth :: "face_analyzer \<Rightarrow> (string \<times> real) list \<Rightarrow> (string \<times> real) list" where
  "golden_eye_mouth self ratios_to_check =
     (case (get_point self ''L_eye_outer'', get_point self ''R_eye_outer'',
            get_point self ''cheilion_L'', get_point self ''cheilion_R'') of
        (Some left_eye_outer, Some right_eye_outer, Some left_mouth, Some right_mouth) \<Rightarrow>
          (let eye_width = dist left_eye_outer right_eye_outer ''2D'';
               mouth_width = dist left_mouth right_mouth ''2D''
           in case ratio eye_width mouth_width of
                Some r \<Rightarrow> ratios_to_check @ [(''eye_to_mouth_width'', r)]
              | None \<Rightarrow> ratios_to_check)
      | _ \<Rightarrow> ratios_to_check)"

definition golden_height_width :: "face_analyzer \<Rightarrow> (string \<times> real) list \<Rightarrow> (string \<times> real) list" where
  "golden_height_width self ratios_to_check =
     (case (get_point self ''chin_tip'', get_point self ''nasion'',
            get_point self ''L_cheek'', get_point self ''R_cheek'') of
        (Some chin_tip, Some nasion, Some left_cheek, Some right_cheek) \<Rightarrow>
          (let face_height = dist nasion chin_tip ''2D'';
               face_width = dist left_cheek right_cheek ''2D''
           in case ratio face_height face_width of
                Some r \<Rightarrow> ratios_to_check @ [(''face_height_to_width'', r)]
              | None \<Rightarrow> ratios_to_check)
      | _ \<Rightarrow> ratios_to_check)"

definition golden_nose_mouth :: "face_analyzer \<Rightarrow> (string \<times> real) list \<Rightarrow> (string \<times> real) list" where
  "golden_nose_mouth self ratios_to_check =
     (case (get_point self ''subnasale'', get_point self ''stomion'',
            get_point self ''chin_tip'') of
        (Some subnasale, Some stomion, Some chin_tip) \<Rightarrow>
          (let nose_to_mouth = dist subnasale stomion ''2D'';
               mouth_to_chin = dist stomion chin_tip ''2D''
           in case ratio nose_to_mouth mouth_to_chin of
                Some r \<Rightarrow> ratios_to_check @ [(''nose_mouth_to_mouth_chin'', r)]
              | None \<Rightarrow> ratios_to_check)
      | _ \<Rightarrow> ratios_to_check)"

text \<open>The body of the loop that fills \<^verbatim>\<open>phi_deviations\<close>.\<close>

definition phi_deviation :: "string \<times> real \<Rightarrow> pydict \<Rightarrow> pydict" where
  "phi_deviation entry phi_deviations =
     (case entry of (name, r) \<Rightarrow>
        (let deviation = \<bar>r - PHI\<bar> / PHI
         in py_setitem phi_deviations (name @ ''_phi_deviation'')
              (create_metric (PFloat deviation) ''2D'' [] True (8 / 10))))"

text \<open>
  \<^verbatim>\<open>if k in self.structure: thirds_ratios.append(self.structure[k].get('value', 1.0))\<close>:
  the values appended for key \<open>k\<close>. An entry that is not a dictionary has no \<^verbatim>\<open>get\<close>.
\<close>

definition thirds_value :: "pydict \<Rightarrow> string \<Rightarrow> exn + pyval list" where
  "thirds_value st k =
     (if py_in k st then
        (case py_get st k PNone of
           PDict m \<Rightarrow> Inr [py_get m ''value'' (PFloat 1)]
         | _ \<Rightarrow> Inl (AttributeError ''get''))
      else Inr [])"

fun as_number :: "pyval \<Rightarrow> real option" where
  "as_number (PFloat r) = Some r"
| "as_number (PInt i) = Some (real_of_int i)"
| "as_number (PBool b) = Some (if b then 1 else 0)"
| "as_number _ = None"

fun is_nonfinite :: "pyval \<Rightarrow> bool" where
  "is_nonfinite PNaN = True"
| "is_nonfinite PNegInf = True"
| "is_nonfinite _ = False"

text \<open>
  \<^verbatim>\<open>1.0 - np.std(values)\<close> on a list of Python values: numbers give a number, a non-finite
  entry gives \<^verbatim>\<open>nan\<close>, and any other entry (\<^verbatim>\<open>None\<close>, a string, a container) raises.
\<close>

definition one_minus_std :: "pyval list \<Rightarrow> exn + pyval" where
  "one_minus_std vs =
     (if list_all (\<lambda>v. as_number v \<noteq> None) vs
      then Inr (PFloat (1 - np_std (map (\<lambda>v. case as_number v of Some r \<Rightarrow> r | None \<Rightarrow> 0) vs)))
      else if list_all (\<lambda>v. as_number v \<noteq> None \<or> is_nonfinite v) vs
      then Inr PNaN
      else Inl (TypeError ''unsupported operand type(s)''))"

definition golden_thirds :: "face_analyzer \<Rightarrow> pydict \<Rightarrow> exn + pydict" where
  "golden_thirds self golden =
     (case self_structure self of
        None \<Rightarrow> Inl (AttributeError ''structure'')
      | Some st \<Rightarrow>
         (case thirds_value st ''upper_to_middle_third'' of
            Inl e \<Rightarrow> Inl e
          | Inr upper \<Rightarrow>
             (case thirds_value st ''lower_to_middle_third'' of
                Inl e \<Rightarrow> Inl e
              | Inr lower \<Rightarrow>
                 (let thirds_ratios = upper @ lower
                  in if thirds_ratios \<noteq> [] then
                       (case one_minus_std thirds_ratios of
                          Inl e \<Rightarrow> Inl e
                        | Inr evenness \<Rightarrow>
                            Inr (py_setitem golden ''thirds_evenness''
                                   (create_metric evenness ''2D'' [] True (7 / 10))))
                     else Inr golden))))"

text \<open>
  \<^verbatim>\<open>1.0 - np.mean([abs(f - ideal_fifth) / ideal_fifth for f in fifths])\<close>. The widths
  are numpy floats, so a zero \<^verbatim>\<open>ideal_fifth\<close> does not raise: a positive width over zero is
  \<^verbatim>\<open>inf\<close> and a zero width over zero is \<^verbatim>\<open>nan\<close>.
\<close>

definition fifths_value :: "real list \<Rightarrow> real \<Rightarrow> pyval" where
  "fifths_value fifths ideal_fifth =
     (if ideal_fifth = 0 then (if list_all (\<lambda>f. f \<noteq> 0) fifths then PNegInf else PNaN)
      else PFloat (1 - np_mean (map (\<lambda>f. \<bar>f - ideal_fifth\<bar> / ideal_fifth) fifths)))"

definition golden_fifths :: "face_analyzer \<Rightarrow> pydict \<Rightarrow> pydict" where
  "golden_fifths self golden =
     (case (get_point self ''L_eye_outer'', get_point self ''L_eye_inner'',
            get_point self ''R_eye_inner'', get_point self ''R_eye_outer'') of
        (Some left_outer, Some left_inner, Some right_inner, Some right_outer) \<Rightarrow>
          (let total_width = dist left_outer right_outer ''2D'';
               eye_width_l = dist left_outer left_inner ''2D'';
               eye_width_r = dist right_inner right_outer ''2D'';
               intercanthal = dist left_inner right_inner ''2D'';
               fifths = [eye_width_l, intercanthal, eye_width_r];
               ideal_fifth = total_width / 5
           in py_setitem golden ''fifths_evenness''
                (metric (fifths_value fifths ideal_fifth) ''2D''
                   [''L_eye_outer'', ''L_eye_inner'', ''R_eye_inner'', ''R_eye_outer'']))
      | _ \<Rightarrow> golden)"

definition analyze_golden_diagnostics :: "face_analyzer \<Rightarrow> exn + pydict" where
  "analyze_golden_diagnostics self =
     (let golden = [];
          ratios_to_check = [];
          ratios_to_check = golden_eye_mouth self ratios_to_check;
          ratios_to_check = golden_height_width self ratios_to_check;
          ratios_to_check = golden_nose_mouth self ratios_to_check;
          phi_deviations = fold phi_deviation ratios_to_check [];
          golden = py_setitem golden ''phi_deviations'' (PDict phi_deviations)
      in case golden_thirds self golden of
           Inl e \<Rightarrow> Inl e
         | Inr golden \<Rightarrow> Inr (golden_fifths self golden))"

subsection \<open>Blendshapes and pose\<close>

definition get_score :: "blendshape \<Rightarrow> pyval" where
  "get_score bs = (case bs_score bs of None \<Rightarrow> PInt 0 | Some s \<Rightarrow> PFloat s)"

definition active_blendshape :: "blendshape \<Rightarrow> pyval list \<Rightarrow> pyval list" where
  "active_blendshape bs active =
     (if (case bs_score bs of None \<Rightarrow> (0::real) | Some s \<Rightarrow> s) > 1 / 10 then
        active @ [PDict [(''name'', PStr (case bs_category_name bs of
                                           None \<Rightarrow> ''unknown'' | Some n \<Rightarrow> n)),
                         (''score'', get_score bs)]]
      else active)"

definition analyze_blendshapes :: "face_analyzer \<Rightarrow> pydict" where
  "analyze_blendshapes self =
     (if blendshapes self = [] then []
      else [(''total_blendshapes'', PInt (int (length (blendshapes self)))),
            (''active_blendshapes'', PList (fold active_blendshape (blendshapes self) []))])"

definition estimate_pose :: "face_analyzer \<Rightarrow> pydict" where
  "estimate_pose self =
     (let nose_tip = get_point self ''nose_tip'';
          chin_tip = get_point self ''chin_tip'';
          left_ear = get_point self ''L_ear_top'';
          right_ear = get_point self ''R_ear_top'';
          pose = [];
          pose = (case (left_ear, right_ear) of
                    (Some le, Some re) \<Rightarrow>
                      py_setitem pose ''roll_deg''
                        (PFloat (degrees (arctan2 (vy re - vy le) (vx re - vx le))))
                  | _ \<Rightarrow> pose);
          pose = (case nose_tip of
                    Some nt \<Rightarrow>
                      py_setitem pose ''yaw_deg''
                        (PFloat (degrees (arcsin (np_clip (vx nt * 2) (-1) 1))))
                  | None \<Rightarrow> pose);
          pose = (case (nose_tip, chin_tip) of
                    (Some nt, Some ct) \<Rightarrow>
                      py_setitem pose ''pitch_deg''
                        (PFloat (degrees (arctan2 (vy ct - vy nt)
                                            (\<bar>vz ct - vz nt\<bar> + eps self))))
                  | _ \<Rightarrow> pose)
      in pose)"

subsection \<open>The orchestrator and the failure boundary\<close>

definition analyze :: "runtime \<Rightarrow> face_analyzer \<Rightarrow> exn + pydict" where
  "analyze rt self =
     (let eyes = analyze_eyes self;
          nose = analyze_nose self;
          mouth = analyze_mouth rt self;
          structure = analyze_structure self;
          self = self\<lparr>self_structure := Some structure\<rparr>;
          symmetry = analyze_symmetry self;
          profile = analyze_profile self
      in case analyze_golden_diagnostics self of
           Inl e \<Rightarrow> Inl e
         | Inr golden \<Rightarrow>
            (let blendshape_summary = analyze_blendshapes self;
                 pose = estimate_pose self
             in Inr [(''normalization'',
                        PDict [(''scale_basis'', PFloat (scale_basis self)),
                               (''fallback_indices_used'', PBool (fallback_indices_used self)),
                               (''visibility_threshold'', PFloat (visibility_threshold self))]),
                     (''pose_estimation'', PDict pose),
                     (''eyes'', PDict eyes),
                     (''nose'', PDict nose),
                     (''mouth'', PDict mouth),
                     (''structure'', PDict structure),
                     (''symmetry'', PDict symmetry),
                     (''profile'', PDict profile),
                     (''golden_diagnostics'', PDict golden),
                     (''blendshape_summary'', PDict blendshape_summary)]))"

text \<open>The dictionary built by the \<^verbatim>\<open>except Exception as e\<close> branch.\<close>

definition error_envelope :: "runtime \<Rightarrow> exn \<Rightarrow> pydict" where
  "error_envelope rt e =
     [(''error'', PStr (str_exn e)),
      (''traceback'', PStr (format_exc rt e)),
      (''status'', PStr ''failed'')]"

definition analyze_face_ratios :: "runtime \<Rightarrow> landmark list \<Rightarrow> blendshape list option
    \<Rightarrow> (string \<times> int) list option \<Rightarrow> pydict" where
  "analyze_face_ratios rt lms bs im =
     (case init lms bs im of
        Inl e \<Rightarrow> error_envelope rt e
      | Inr analyzer \<Rightarrow>
         (case analyze rt analyzer of
            Inl e \<Rightarrow> error_envelope rt e
          | Inr result \<Rightarrow> result))"

section \<open>Definitions used to state the properties\<close>

text \<open>
  The fixed top-level keys of a result, and the two shapes a returned dictionary has.
\<close>

definition result_keys :: "string list" where
  "result_keys = [''normalization'', ''pose_estimation'', ''eyes'', ''nose'', ''mouth'',
     ''structure'', ''symmetry'', ''profile'', ''golden_diagnostics'', ''blendshape_summary'']"

definition is_dict :: "pyval \<Rightarrow> bool" where
  "is_dict v = (case v of PDict d \<Rightarrow> True | _ \<Rightarrow> False)"

definition is_analysis_result :: "pydict \<Rightarrow> bool" where
  "is_analysis_result r = (map fst r = result_keys \<and> list_all is_dict (map snd r))"

definition has_no_result_key :: "pydict \<Rightarrow> bool" where
  "has_no_result_key r = list_all (\<lambda>k. \<not> py_in k r) result_keys"

definition is_error_envelope :: "pydict \<Rightarrow> bool" where
  "is_error_envelope r =
     (case map_of r ''error'' of
        Some (PStr s) \<Rightarrow> map_of r ''status'' = Some (PStr ''failed'')
      | _ \<Rightarrow> False)"

text \<open>
  The nested dictionary under a key, and the \<^verbatim>\<open>value\<close> field of the
  metric under a key.
\<close>

definition sub_dict :: "pydict \<Rightarrow> string \<Rightarrow> pydict option" where
  "sub_dict r k = (case map_of r k of Some (PDict d) \<Rightarrow> Some d | _ \<Rightarrow> None)"

definition metric_value_of :: "pydict \<Rightarrow> string \<Rightarrow> pyval option" where
  "metric_value_of d k = (case sub_dict d k of Some m \<Rightarrow> map_of m ''value'' | None \<Rightarrow> None)"

text \<open>A landmark that has its three coordinates, and the point it stands for.\<close>

definition has_coords :: "landmark \<Rightarrow> bool" where
  "has_coords lm = (lm_x lm \<noteq> None \<and> lm_y lm \<noteq> None \<and> lm_z lm \<noteq> None)"

definition raw_point :: "landmark \<Rightarrow> vec3" where
  "raw_point lm = (case lm_coords lm of Inr p \<Rightarrow> p | Inl e \<Rightarrow> (0, 0, 0))"

text \<open>
  A runtime for closed instances: its \<^verbatim>\<open>polyfit\<close> always raises and its
  traceback text is empty. No property below depends on either.
\<close>

definition null_runtime :: runtime where
  "null_runtime = \<lparr>np_polyfit = (\<lambda>xs ys d. None), format_exc = (\<lambda>e. [])\<rparr>"

text \<open>
  A degenerate detection: 468 landmarks, all at the centre of the image, all fully
  visible. With the built-in index table every named point resolves.
\<close>

definition lm0 :: landmark where
  "lm0 = \<lparr>lm_x = Some (1/2), lm_y = Some (1/2), lm_z = Some 0,
           lm_visibility = Some 1, lm_presence = Some 1\<rparr>"

definition degenerate_analyzer :: face_analyzer where
  "degenerate_analyzer =
     \<lparr>landmarks = replicate 468 lm0, blendshapes = [], index_map = FALLBACK_INDICES,
      fallback_indices_used = True, visibility_threshold = 3 / 10, eps = 1 / 10^8,
      points = replicate 468 (1/2, 1/2, 0), visibility = replicate 468 1,
      scale_basis = 1, self_structure = None\<rparr>"

text \<open>
  The analyzer that \<^verbatim>\<open>__init__\<close> builds from an empty landmark
  sequence.
\<close>

definition empty_analyzer :: "blendshape list option \<Rightarrow> (string \<times> int) list option \<Rightarrow> face_analyzer" where
  "empty_analyzer bs im =
     \<lparr>landmarks = [], blendshapes = (case bs of None \<Rightarrow> [] | Some b \<Rightarrow> b),
      index_map = (case im of None \<Rightarrow> FALLBACK_INDICES
                   | Some m \<Rightarrow> if m = [] then FALLBACK_INDICES else m),
      fallback_indices_used = (im = None), visibility_threshold = 3 / 10, eps = 1 / 10^8,
      points = [], visibility = [], scale_basis = 1, self_structure = None\<rparr>"

text \<open>
  A detection whose left outer eye corner lies higher in the image (smaller \<open>y\<close>) than
  the inner corner; the two outer corners are level, so roll correction leaves it as it is.
\<close>

definition visible_landmark :: "real \<Rightarrow> real \<Rightarrow> landmark" where
  "visible_landmark x y = \<lparr>lm_x = Some x, lm_y = Some y, lm_z = Some 0,
           lm_visibility = Some 1, lm_presence = Some 1\<rparr>"

definition tilted_landmarks :: "landmark list" where
  "tilted_landmarks = (replicate 468 lm0)
     [33 := visible_landmark (3/10) (2/5), 133 := visible_landmark (2/5) (1/2),
      263 := visible_landmark (7/10) (2/5), 362 := visible_landmark (3/5) (1/2)]"

definition tilted_points :: "vec3 list" where
  "tilted_points = (replicate 468 (1/2, 1/2, 0))
     [33 := (3/10, 2/5, 0), 133 := (2/5, 1/2, 0), 263 := (7/10, 2/5, 0), 362 := (3/5, 1/2, 0)]"

definition tilted_analyzer :: face_analyzer where
  "tilted_analyzer =
     \<lparr>landmarks = tilted_landmarks, blendshapes = [], index_map = FALLBACK_INDICES,
      fallback_indices_used = True, visibility_threshold = 3 / 10, eps = 1 / 10^8,
      points = tilted_points, visibility = replicate 468 1,
      scale_basis = 2 / 5, self_structure = None\<rparr>"

text \<open>
  Two analyzers that every metric computation sees alike: the methods read the analyzer only
  through these attributes and through \<^verbatim>\<open>_get_point\<close>.
\<close>

definition same_view :: "face_analyzer \<Rightarrow> face_analyzer \<Rightarrow> bool" where
  "same_view a b =
     (get_point a = get_point b \<and> scale_basis a = scale_basis b \<and> eps a = eps b
      \<and> blendshapes a = blendshapes b \<and> fallback_indices_used a = fallback_indices_used b
      \<and> visibility_threshold a = visibility_threshold b)"

text \<open>
  The normalizer in the words of the specification: the built-in table unless a non-empty one
  is supplied, the confidence values stored once, the roll angle of the outer-eye line, the
  rotation about the origin in the XY-plane, and the scale basis from the outer-eye distance,
  then the cheek distance, then 1.
\<close>

definition chosen_index_map :: "(string \<times> int) list option \<Rightarrow> (string \<times> int) list" where
  "chosen_index_map im =
     (case im of None \<Rightarrow> FALLBACK_INDICES | Some m \<Rightarrow> if m = [] then FALLBACK_INDICES else m)"

definition stored_visibility :: "landmark list \<Rightarrow> real list" where
  "stored_visibility lms =
     (if list_all (\<lambda>lm. get_visibility lm = 0) lms
      then map get_presence lms else map get_visibility lms)"

definition roll_angle_of :: "(string \<times> int) list \<Rightarrow> vec3 list \<Rightarrow> real option" where
  "roll_angle_of im pts =
     (case py_index pts (py_get im ''L_eye_outer'' 33) of
        None \<Rightarrow> None
      | Some l \<Rightarrow>
         (case py_index pts (py_get im ''R_eye_outer'' 263) of
            None \<Rightarrow> None
          | Some r \<Rightarrow> Some (arctan2 (vy r - vy l) (vx r - vx l))))"

definition rotate_xy :: "real \<Rightarrow> vec3 \<Rightarrow> vec3" where
  "rotate_xy t p = (vx p * cos t - vy p * sin t, vx p * sin t + vy p * cos t, vz p)"

definition normalized_points :: "(string \<times> int) list \<Rightarrow> vec3 list \<Rightarrow> vec3 list" where
  "normalized_points im pts =
     (case roll_angle_of im pts of None \<Rightarrow> pts | Some t \<Rightarrow> map (rotate_xy (- t)) pts)"

definition landmark_distance :: "(string \<times> int) list \<Rightarrow> vec3 list \<Rightarrow> string \<Rightarrow> int \<Rightarrow> string \<Rightarrow> int
    \<Rightarrow> real option" where
  "landmark_distance im pts l dl r dr =
     (case py_index pts (py_get im l dl) of
        None \<Rightarrow> None
      | Some p \<Rightarrow>
         (case py_index pts (py_get im r dr) of
            None \<Rightarrow> None
          | Some q \<Rightarrow> Some (sqrt ((vx p - vx q)\<^sup>2 + (vy p - vy q)\<^sup>2))))"

definition exceeds :: "real option \<Rightarrow> real \<Rightarrow> bool" where
  "exceeds d e = (case d of None \<Rightarrow> False | Some v \<Rightarrow> v > e)"

definition spec_scale_basis :: "(string \<times> int) list \<Rightarrow> vec3 list \<Rightarrow> real" where
  "spec_scale_basis im pts =
     (let outer_eye = landmark_distance im pts ''L_eye_outer'' 33 ''R_eye_outer'' 263;
          cheek = landmark_distance im pts ''L_cheek'' 205 ''R_cheek'' 425
      in if exceeds outer_eye (1 / 10^8) then (case outer_eye of Some d \<Rightarrow> d | None \<Rightarrow> 1)
         else if exceeds cheek (1 / 10^8) then (case cheek of Some d \<Rightarrow> d | None \<Rightarrow> 1)
         else 1)"

definition built_analyzer :: "landmark list \<Rightarrow> blendshape list option \<Rightarrow> (string \<times> int) list option
    \<Rightarrow> face_analyzer" where
  "built_analyzer lms bs im =
     \<lparr>landmarks = lms,
      blendshapes = (case bs of None \<Rightarrow> [] | Some b \<Rightarrow> b),
      index_map = chosen_index_map im,
      fallback_indices_used = (im = None),
      visibility_threshold = 3 / 10,
      eps = 1 / 10^8,
      points = normalized_points (chosen_index_map im) (map raw_point lms),
      visibility = stored_visibility lms,
      scale_basis = spec_scale_basis (chosen_index_map im)
                      (normalized_points (chosen_index_map im) (map raw_point lms)),
      self_structure = None\<rparr>"

text \<open>
  The input transformations of the confidence claims, and the part of a constructed analyzer
  that normalization decides.
\<close>

definition presence_as_visibility :: "landmark \<Rightarrow> landmark" where
  "presence_as_visibility lm = lm\<lparr>lm_visibility := lm_presence lm\<rparr>"

definition fully_confident :: "landmark \<Rightarrow> landmark" where
  "fully_confident lm = lm\<lparr>lm_visibility := Some 1, lm_presence := Some 1\<rparr>"


text \<open>
  Small inputs for closed instances: two landmarks at distance 2 on a level line, read through
  an index table that names them as the outer eye corners.
\<close>

definition eye_pair_map :: "(string \<times> int) list" where
  "eye_pair_map = [(''L_eye_outer'', 0), (''R_eye_outer'', 1)]"

definition landmark_at :: "real \<Rightarrow> real \<Rightarrow> real \<Rightarrow> real \<Rightarrow> real \<Rightarrow> landmark" where
  "landmark_at x y z v p = \<lparr>lm_x = Some x, lm_y = Some y, lm_z = Some z,
           lm_visibility = Some v, lm_presence = Some p\<rparr>"

definition confident_pair :: "landmark list" where
  "confident_pair = [landmark_at 0 0 0 1 1, landmark_at 2 0 0 1 1]"

definition doubtful_pair :: "landmark list" where
  "doubtful_pair = [landmark_at 0 0 0 (1/10) (1/10), landmark_at 2 0 0 (1/10) (1/10)]"

definition presence_only_pair :: "landmark list" where
  "presence_only_pair = [landmark_at 0 0 0 0 (9/10), landmark_at 2 0 0 0 (9/10)]"

definition zero_confidence_pair :: "landmark list" where
  "zero_confidence_pair = [landmark_at 0 0 0 0 0, landmark_at 2 0 0 0 0]"

definition pair_points :: "vec3 list" where
  "pair_points = [(0, 0, 0), (2, 0, 0)]"

definition pair_analyzer :: "landmark list \<Rightarrow> real list \<Rightarrow> face_analyzer" where
  "pair_analyzer lms vis =
     \<lparr>landmarks = lms, blendshapes = [], index_map = eye_pair_map,
      fallback_indices_used = False, visibility_threshold = 3 / 10, eps = 1 / 10^8,
      points = pair_points, visibility = vis, scale_basis = 2, self_structure = None\<rparr>"

text \<open>
  The angle, in degrees, of the line between the outer-eye landmarks of a point array; and an
  input whose eye line is vertical.
\<close>

definition eye_line_angle_deg :: "(string \<times> int) list \<Rightarrow> vec3 list \<Rightarrow> real option" where
  "eye_line_angle_deg im pts =
     (case roll_angle_of im pts of None \<Rightarrow> None | Some t \<Rightarrow> Some (degrees t))"

definition upright_pair :: "landmark list" where
  "upright_pair = [landmark_at 0 0 5 1 1, landmark_at 0 2 7 1 1]"

text \<open>
  The thirds evenness in the words of the specification: defined when both ratios exist in the
  structure mapping, and then 1 minus their standard deviation. A small face for a closed
  instance: the brows, nasion, subnasale and chin on one vertical line, at heights 0, 1, 3 and
  6.
\<close>

definition spec_thirds_evenness :: "pydict \<Rightarrow> pyval option" where
  "spec_thirds_evenness st =
     (case (metric_value_of st ''upper_to_middle_third'',
            metric_value_of st ''lower_to_middle_third'') of
        (Some (PFloat u), Some (PFloat l)) \<Rightarrow> Some (PFloat (1 - np_std [u, l]))
      | _ \<Rightarrow> None)"

definition face_map :: "(string \<times> int) list" where
  "face_map = [(''L_brow_inner'', 0), (''R_brow_inner'', 0), (''nasion'', 1),
               (''subnasale'', 2), (''chin_tip'', 3)]"

definition face_landmarks :: "landmark list" where
  "face_landmarks = [landmark_at 0 0 0 1 1, landmark_at 0 1 0 1 1,
                     landmark_at 0 3 0 1 1, landmark_at 0 6 0 1 1]"

definition face_analyzer0 :: face_analyzer where
  "face_analyzer0 =
     \<lparr>landmarks = face_landmarks, blendshapes = [], index_map = face_map,
      fallback_indices_used = False, visibility_threshold = 3 / 10, eps = 1 / 10^8,
      points = [(0, 0, 0), (0, 1, 0), (0, 3, 0), (0, 6, 0)], visibility = [1, 1, 1, 1],
      scale_basis = 1, self_structure = None\<rparr>"

text \<open>
  The names that the analyzers look up, an analyzer in which every one of them is found, the
  metrics that need nothing but their points (no guarded ratio), and the presence of a
  metric in a region of a returned result.
\<close>

definition used_names :: "string list" where
  "used_names =
     [''chin_tip'', ''nose_tip'', ''subnasale'', ''L_eye_outer'', ''L_eye_inner'',
      ''R_eye_inner'', ''R_eye_outer'', ''L_brow_inner'', ''R_brow_inner'', ''L_brow_outer'',
      ''R_brow_outer'', ''alare_L'', ''alare_R'', ''labiale_superius'', ''labiale_inferius'',
      ''stomion'', ''cheilion_L'', ''cheilion_R'', ''gonion_L'', ''gonion_R'', ''menton'',
      ''nasion'', ''L_ear_top'', ''R_ear_top'', ''L_cheek'', ''R_cheek'']"

definition all_found :: "face_analyzer \<Rightarrow> bool" where
  "all_found s = list_all (\<lambda>n. get_point s n \<noteq> None) used_names"

definition found_point :: "face_analyzer \<Rightarrow> string \<Rightarrow> vec3" where
  "found_point s n = (case get_point s n of Some p \<Rightarrow> p | None \<Rightarrow> (0, 0, 0))"

definition has_metric :: "pydict \<Rightarrow> string \<Rightarrow> string \<Rightarrow> bool" where
  "has_metric r region key = (case sub_dict r region of Some d \<Rightarrow> py_in key d | None \<Rightarrow> False)"

definition resolves_all :: "(string \<times> int) list \<Rightarrow> nat \<Rightarrow> bool" where
  "resolves_all im n =
     list_all (\<lambda>name. case map_of im name of
                          None \<Rightarrow> False
                        | Some idx \<Rightarrow> - int n \<le> idx \<and> idx < int n) used_names"

definition unconditional_metrics :: "(string \<times> string) list" where
  "unconditional_metrics =
     [(''eyes'', ''fissure_length_L''), (''eyes'', ''canthal_tilt_deg_L''),
      (''eyes'', ''fissure_length_R''), (''eyes'', ''canthal_tilt_deg_R''),
      (''eyes'', ''brow_height_L''), (''eyes'', ''brow_slope_L''),
      (''eyes'', ''brow_height_R''), (''eyes'', ''brow_slope_R''),
      (''nose'', ''alar_width_over_inter_eye''), (''nose'', ''tip_projection_3D_over_IPD''),
      (''nose'', ''nasal_tip_to_upper_lip_angle_deg''),
      (''mouth'', ''mouth_width_over_IPD''), (''mouth'', ''smile_arc_curvature''),
      (''mouth'', ''cupid_bow_depth''),
      (''structure'', ''gonial_width_normalized''), (''structure'', ''mandibular_angle_deg''),
      (''structure'', ''chin_prominence_3D''),
      (''symmetry'', ''midline_symmetry_score''), (''symmetry'', ''bilateral_feature_deltas''),
      (''profile'', ''e_line_upper_lip''), (''profile'', ''e_line_lower_lip''),
      (''golden_diagnostics'', ''phi_deviations''), (''golden_diagnostics'', ''fifths_evenness''),
      (''pose_estimation'', ''roll_deg''), (''pose_estimation'', ''yaw_deg''),
      (''pose_estimation'', ''pitch_deg'')]"

text \<open>
  The tilted detection with every visibility and every presence set to 0.
\<close>

definition zero_confidence :: "landmark \<Rightarrow> landmark" where
  "zero_confidence lm = lm\<lparr>lm_visibility := Some 0, lm_presence := Some 0\<rparr>"

definition unseen_landmarks :: "landmark list" where
  "unseen_landmarks = map zero_confidence tilted_landmarks"

definition unseen_analyzer :: face_analyzer where
  "unseen_analyzer =
     tilted_analyzer\<lparr>landmarks := unseen_landmarks, visibility := replicate 468 0\<rparr>"

text \<open>
  Point lookup with the confidence threshold applied to presence, in the words of the
  specification: the name resolves to an index within the point array and the presence
  value at that index is at least 0.3. Three landmarks for a closed instance: the two
  outer eye corners with presence 0.9 and the nose tip with presence 0.1, all with
  visibility 0.
\<close>

definition presence_lookup :: "landmark list \<Rightarrow> (string \<times> int) list \<Rightarrow> vec3 list \<Rightarrow> string
    \<Rightarrow> vec3 option" where
  "presence_lookup lms im pts name =
     (case map_of im name of
        None \<Rightarrow> None
      | Some idx \<Rightarrow>
         (if idx \<ge> int (length pts) then None
          else (case py_index (map get_presence lms) idx of
                  None \<Rightarrow> None
                | Some p \<Rightarrow> if 3 / 10 \<le> p then py_index pts idx else None)))"

definition trio_map :: "(string \<times> int) list" where
  "trio_map = [(''L_eye_outer'', 0), (''R_eye_outer'', 1), (''nose_tip'', 2)]"

definition presence_trio :: "landmark list" where
  "presence_trio = [landmark_at 0 0 0 0 (9/10), landmark_at 2 0 0 0 (9/10),
                    landmark_at 1 1 0 0 (1/10)]"

definition trio_analyzer :: face_analyzer where
  "trio_analyzer =
     \<lparr>landmarks = presence_trio, blendshapes = [], index_map = trio_map,
      fallback_indices_used = False, visibility_threshold = 3 / 10, eps = 1 / 10^8,
      points = [(0, 0, 0), (2, 0, 0), (1, 1, 0)], visibility = [9 / 10, 9 / 10, 1 / 10],
      scale_basis = 2, self_structure = None\<rparr>"

section \<open>Properties\<close>

subsection \<open>Dictionaries and indexing\<close>

lemma map_of_py_setitem:
  "map_of (py_setitem d k v) k' = (if k' = k then Some v else map_of d k')"
  by (induction d) auto

lemma list_all_replicate: "list_all P (replicate n x) = (n = 0 \<or> P x)"
  by (induction n) auto

lemma py_index_replicate:
  "0 \<le> i \<Longrightarrow> i < int n \<Longrightarrow> py_index (replicate n x) i = Some x"
  by (simp add: py_index_def Let_def)

lemma arctan2_0_0: "arctan2 0 0 = 0"
  by (simp add: arctan2_def)

subsection \<open>Reading the coordinates\<close>

lemma lm_coords_Inr: "lm_coords lm = Inr p \<longleftrightarrow> has_coords lm \<and> p = raw_point lm"
  by (auto simp: has_coords_def raw_point_def lm_coords_def split: option.splits)

lemma collect_points_Inr:
  "collect_points lms = Inr pts \<longleftrightarrow> list_all has_coords lms \<and> pts = map raw_point lms"
proof (induction lms arbitrary: pts)
  case Nil
  show ?case by auto
next
  case (Cons lm lms)
  show ?case
  proof (cases "lm_coords lm")
    case (Inl e)
    then have "\<not> has_coords lm"
      by (auto simp: has_coords_def lm_coords_def split: option.splits)
    with Inl show ?thesis by simp
  next
    case (Inr p)
    then have hp: "has_coords lm \<and> p = raw_point lm" by (simp only: lm_coords_Inr)
    show ?thesis
    proof (cases "collect_points lms")
      case (Inl e)
      with Cons.IH[of "map raw_point lms"] have "\<not> list_all has_coords lms" by auto
      with Inl Inr show ?thesis by simp
    next
      case r: (Inr ps)
      with Cons.IH[of ps] have "list_all has_coords lms \<and> ps = map raw_point lms" by simp
      with r Inr hp show ?thesis by auto
    qed
  qed
qed

subsection \<open>The shape of the returned dictionary\<close>

lemma envelope_shape:
  "is_error_envelope (error_envelope rt e) \<and> has_no_result_key (error_envelope rt e)"
  by (simp add: is_error_envelope_def error_envelope_def has_no_result_key_def
      result_keys_def py_in_def)

lemma analyze_shape:
  "analyze rt self = Inr r \<Longrightarrow> is_analysis_result r \<and> \<not> py_in ''error'' r"
  by (auto simp: analyze_def Let_def is_analysis_result_def is_dict_def result_keys_def
      py_in_def split: sum.splits)

text \<open>
  C1. For every input, \<^verbatim>\<open>analyze_face_ratios\<close> returns one of two
  shapes: a result whose keys are exactly the ten fixed top-level keys, each holding a
  dictionary, with no \<^verbatim>\<open>error\<close> field; or an envelope with a string
  \<^verbatim>\<open>error\<close> field and status \<^verbatim>\<open>failed\<close> that has
  none of the ten keys.
\<close>

theorem analyze_face_ratios_shape:
  "(is_analysis_result (analyze_face_ratios rt lms bs im)
      \<and> \<not> py_in ''error'' (analyze_face_ratios rt lms bs im))
   \<or> (is_error_envelope (analyze_face_ratios rt lms bs im)
      \<and> has_no_result_key (analyze_face_ratios rt lms bs im))"
  unfolding analyze_face_ratios_def
  using envelope_shape analyze_shape
  by (auto split: sum.splits)

subsection \<open>The degenerate detection\<close>

lemma init_degenerate: "init (replicate 468 lm0) None None = Inr degenerate_analyzer"
proof -
  have c: "collect_points (replicate 468 lm0) = Inr (replicate 468 (1/2, 1/2, 0))"
    by (simp add: collect_points_Inr has_coords_def raw_point_def lm_coords_def lm0_def
        list_all_replicate)
  have v: "get_visibility lm0 = 1" by (simp add: get_visibility_def lm0_def)
  show ?thesis
    by (simp add: init_def c v Let_def apply_roll_correction_def degenerate_analyzer_def
        compute_scale_basis_def indexed_dist_def py_get_def FALLBACK_INDICES_def
        py_index_replicate dot_T_def dot3_def vx_def vy_def vz_def dist_def
        list_all_replicate arctan2_0_0)
qed

lemma get_point_degenerate:
  "map_of FALLBACK_INDICES name = Some idx \<Longrightarrow> 0 \<le> idx \<Longrightarrow> idx < 468 \<Longrightarrow>
   get_point degenerate_analyzer name = Some (1/2, 1/2, 0)"
  by (simp add: get_point_def degenerate_analyzer_def py_index_replicate list_all_replicate)

lemma fallback_lookups:
  "map_of FALLBACK_INDICES ''alare_L'' = Some 234"
  "map_of FALLBACK_INDICES ''alare_R'' = Some 454"
  "map_of FALLBACK_INDICES ''L_eye_inner'' = Some 133"
  "map_of FALLBACK_INDICES ''R_eye_inner'' = Some 362"
  by (simp_all add: FALLBACK_INDICES_def)

lemma nose_alar_degenerate:
  "nose_alar degenerate_analyzer [] =
     [(''alar_width_over_inter_eye'',
       metric PNone ''2D'' [''alare_L'', ''alare_R'', ''L_eye_inner'', ''R_eye_inner''])]"
  by (simp add: nose_alar_def get_point_degenerate[OF fallback_lookups(1)]
      get_point_degenerate[OF fallback_lookups(2)] get_point_degenerate[OF fallback_lookups(3)]
      get_point_degenerate[OF fallback_lookups(4)] dist_def ratio_def safe_ratio_def)

lemma nose_length_keeps:
  "k \<noteq> ''nasal_length_over_face_height'' \<Longrightarrow> map_of (nose_length self d) k = map_of d k"
  by (simp add: nose_length_def Let_def map_of_py_setitem split: option.splits)

lemma nose_tip_projection_keeps:
  "k \<noteq> ''tip_projection_3D_over_IPD'' \<Longrightarrow> map_of (nose_tip_projection self d) k = map_of d k"
  by (simp add: nose_tip_projection_def Let_def map_of_py_setitem split: option.splits)

lemma nose_nasolabial_keeps:
  "k \<noteq> ''nasal_tip_to_upper_lip_angle_deg'' \<Longrightarrow> map_of (nose_nasolabial self d) k = map_of d k"
  by (simp add: nose_nasolabial_def Let_def map_of_py_setitem split: option.splits)

lemma alar_ratio_null_in_nose:
  "(case init (replicate 468 lm0) None None of
      Inl e \<Rightarrow> False
    | Inr a \<Rightarrow> map_of (analyze_nose a) ''alar_width_over_inter_eye''
         = Some (PDict [(''value'', PNone), (''method'', PStr ''2D''),
                  (''source_points'', PList [PStr ''alare_L'', PStr ''alare_R'',
                                              PStr ''L_eye_inner'', PStr ''R_eye_inner'']),
                  (''valid'', PBool True), (''confidence'', PFloat 1)]))"
  by (simp add: init_degenerate analyze_nose_def
      nose_length_keeps nose_tip_projection_keeps nose_nasolabial_keeps nose_alar_degenerate
      metric_def create_metric_def)

subsection \<open>The empty landmark sequence\<close>

lemma py_index_Nil: "py_index [] i = None"
  by (simp add: py_index_def Let_def)

lemma get_point_no_points: "points self = [] \<Longrightarrow> visibility self = [] \<Longrightarrow> get_point self name = None"
  by (simp add: get_point_def py_index_Nil split: option.splits)

lemma init_empty: "init [] bs im = Inr (empty_analyzer bs im)"
  by (simp add: init_def Let_def apply_roll_correction_def compute_scale_basis_def
      indexed_dist_def py_index_Nil empty_analyzer_def)

lemma gp_empty: "get_point (empty_analyzer bs im) name = None"
  by (rule get_point_no_points) (simp_all add: empty_analyzer_def)

lemma gp_empty': "get_point (empty_analyzer bs im\<lparr>self_structure := s\<rparr>) name = None"
  by (rule get_point_no_points) (simp_all add: empty_analyzer_def)

lemma analyze_empty:
  "analyze rt (empty_analyzer bs im) =
     Inr [(''normalization'',
             PDict [(''scale_basis'', PFloat 1),
                    (''fallback_indices_used'', PBool (im = None)),
                    (''visibility_threshold'', PFloat (3 / 10))]),
          (''pose_estimation'', PDict []),
          (''eyes'', PDict []),
          (''nose'', PDict []),
          (''mouth'', PDict []),
          (''structure'', PDict []),
          (''symmetry'', PDict [(''bilateral_feature_deltas'', PDict [])]),
          (''profile'', PDict []),
          (''golden_diagnostics'', PDict [(''phi_deviations'', PDict [])]),
          (''blendshape_summary'', PDict (analyze_blendshapes (empty_analyzer bs im)))]"
proof -
  have eyes: "analyze_eyes (empty_analyzer bs im) = []"
    by (simp add: analyze_eyes_def eyes_side_def eyes_intercanthal_def eyes_brow_def gp_empty)
  have nose: "analyze_nose (empty_analyzer bs im) = []"
    by (simp add: analyze_nose_def nose_alar_def nose_length_def nose_tip_projection_def
        nose_nasolabial_def gp_empty)
  have mouth: "analyze_mouth rt (empty_analyzer bs im) = []"
    by (simp add: analyze_mouth_def mouth_width_def mouth_lips_def mouth_bow_def gp_empty)
  have st: "analyze_structure (empty_analyzer bs im) = []"
    by (simp add: analyze_structure_def structure_thirds_def structure_height_width_def
        structure_jaw_def structure_chin_def compute_glabella_def gp_empty)
  have sym: "analyze_symmetry (empty_analyzer bs im\<lparr>self_structure := Some []\<rparr>)
      = [(''bilateral_feature_deltas'', PDict [])]"
    by (simp add: analyze_symmetry_def symmetry_pairs_def symmetry_pair_def gp_empty')
  have prof: "analyze_profile (empty_analyzer bs im\<lparr>self_structure := Some []\<rparr>) = []"
    by (simp add: analyze_profile_def profile_e_line_def profile_midface_def gp_empty')
  have gold: "analyze_golden_diagnostics (empty_analyzer bs im\<lparr>self_structure := Some []\<rparr>)
      = Inr [(''phi_deviations'', PDict [])]"
    by (simp add: analyze_golden_diagnostics_def golden_eye_mouth_def golden_height_width_def
        golden_nose_mouth_def golden_thirds_def thirds_value_def py_in_def golden_fifths_def
        gp_empty')
  have pose: "estimate_pose (empty_analyzer bs im\<lparr>self_structure := Some []\<rparr>) = []"
    by (simp add: estimate_pose_def gp_empty')
  have bsum: "analyze_blendshapes (empty_analyzer bs im\<lparr>self_structure := Some []\<rparr>)
      = analyze_blendshapes (empty_analyzer bs im)"
    by (simp add: analyze_blendshapes_def)
  have fields: "scale_basis (empty_analyzer bs im) = 1"
    "fallback_indices_used (empty_analyzer bs im) = (im = None)"
    "visibility_threshold (empty_analyzer bs im) = 3 / 10"
    by (simp_all add: empty_analyzer_def)
  show ?thesis
    by (simp add: analyze_def eyes nose mouth st sym prof gold pose bsum fields)
qed

text \<open>
  C7 (as amended). For an empty landmark sequence the engine does not fail: it returns a
  normal result with scale basis 1, empty pose, eyes, nose, mouth, structure and profile
  mappings, a symmetry mapping holding only an empty
  \<^verbatim>\<open>bilateral_feature_deltas\<close>, a diagnostics mapping holding only an
  empty \<^verbatim>\<open>phi_deviations\<close>, and neither an
  \<^verbatim>\<open>error\<close> nor a \<^verbatim>\<open>status\<close> field.
\<close>

theorem empty_input_normal_result:
  "sub_dict (analyze_face_ratios rt [] bs im) ''normalization''
     = Some [(''scale_basis'', PFloat 1), (''fallback_indices_used'', PBool (im = None)),
             (''visibility_threshold'', PFloat (3 / 10))]
   \<and> sub_dict (analyze_face_ratios rt [] bs im) ''pose_estimation'' = Some []
   \<and> sub_dict (analyze_face_ratios rt [] bs im) ''eyes'' = Some []
   \<and> sub_dict (analyze_face_ratios rt [] bs im) ''nose'' = Some []
   \<and> sub_dict (analyze_face_ratios rt [] bs im) ''mouth'' = Some []
   \<and> sub_dict (analyze_face_ratios rt [] bs im) ''structure'' = Some []
   \<and> sub_dict (analyze_face_ratios rt [] bs im) ''symmetry''
       = Some [(''bilateral_feature_deltas'', PDict [])]
   \<and> sub_dict (analyze_face_ratios rt [] bs im) ''profile'' = Some []
   \<and> sub_dict (analyze_face_ratios rt [] bs im) ''golden_diagnostics''
       = Some [(''phi_deviations'', PDict [])]
   \<and> is_analysis_result (analyze_face_ratios rt [] bs im)
   \<and> map_of (analyze_face_ratios rt [] bs im) ''error'' = None
   \<and> map_of (analyze_face_ratios rt [] bs im) ''status'' = None"
  by (simp add: analyze_face_ratios_def init_empty analyze_empty sub_dict_def
      is_analysis_result_def result_keys_def is_dict_def)

text \<open>
  C7 as stated fails: the empty landmark sequence does not produce the error envelope.
\<close>

theorem empty_input_not_failed:
  "\<not> is_error_envelope (analyze_face_ratios null_runtime [] None None)
   \<and> map_of (analyze_face_ratios null_runtime [] None None) ''status'' = None
   \<and> is_analysis_result (analyze_face_ratios null_runtime [] None None)"
  by (simp add: analyze_face_ratios_def init_empty analyze_empty is_error_envelope_def
      is_analysis_result_def result_keys_def is_dict_def)

subsection \<open>Canthal tilt\<close>

lemma dist_2D_level: "vy p = vy q \<Longrightarrow> dist p q ''2D'' = \<bar>vx p - vx q\<bar>"
  by (simp add: dist_def)

lemma list_all_update: "list_all P xs \<Longrightarrow> P x \<Longrightarrow> list_all P (xs[i := x])"
  by (induction xs arbitrary: i) (auto split: nat.splits)

lemma has_coords_tilted: "list_all has_coords tilted_landmarks"
  by (simp add: tilted_landmarks_def list_all_update list_all_replicate has_coords_def lm0_def visible_landmark_def)

lemma raw_tilted: "map raw_point tilted_landmarks = tilted_points"
  by (simp add: tilted_landmarks_def tilted_points_def map_update raw_point_def lm_coords_def
      lm0_def visible_landmark_def)

lemma map_constant: "list_all (\<lambda>x. f x = c) xs \<Longrightarrow> map f xs = replicate (length xs) c"
  by (induction xs) auto

lemma vis_tilted: "map get_visibility tilted_landmarks = replicate 468 1"
proof -
  have "list_all (\<lambda>lm. get_visibility lm = 1) tilted_landmarks"
    by (simp add: tilted_landmarks_def list_all_update list_all_replicate get_visibility_def lm0_def visible_landmark_def)
  then have "map get_visibility tilted_landmarks = replicate (length tilted_landmarks) 1"
    by (rule map_constant)
  then show ?thesis by (simp add: tilted_landmarks_def)
qed

lemma py_index_tilted:
  "py_index tilted_points 33 = Some (3/10, 2/5, 0)"
  "py_index tilted_points 133 = Some (2/5, 1/2, 0)"
  "py_index tilted_points 263 = Some (7/10, 2/5, 0)"
  "py_index tilted_points 362 = Some (3/5, 1/2, 0)"
  by (simp_all add: py_index_def tilted_points_def)

lemma dot_T_identity: "dot_T p ((1, 0, 0), (0, 1, 0), (0, 0, 1)) = p"
  by (simp add: dot_T_def dot3_def vx_def vy_def vz_def)

lemma init_tilted: "init tilted_landmarks None None = Inr tilted_analyzer"
proof -
  have c: "collect_points tilted_landmarks = Inr tilted_points"
    by (simp add: collect_points_Inr has_coords_tilted raw_tilted)
  have roll: "apply_roll_correction (tilted_analyzer\<lparr>scale_basis := 0\<rparr>) = tilted_analyzer\<lparr>scale_basis := 0\<rparr>"
    by (simp add: apply_roll_correction_def tilted_analyzer_def py_get_def FALLBACK_INDICES_def
        py_index_tilted vx_def vy_def arctan2_def dot_T_identity)
  have sc: "compute_scale_basis (tilted_analyzer\<lparr>scale_basis := 0\<rparr>) = 2 / 5"
    by (simp add: compute_scale_basis_def indexed_dist_def tilted_analyzer_def py_get_def
        FALLBACK_INDICES_def py_index_tilted dist_2D_level vx_def vy_def)
  have pre: "\<lparr>landmarks = tilted_landmarks, blendshapes = [], index_map = FALLBACK_INDICES,
      fallback_indices_used = True, visibility_threshold = 3 / 10, eps = 1 / 10^8,
      points = tilted_points, visibility = replicate 468 1,
      scale_basis = 0, self_structure = None\<rparr> = tilted_analyzer\<lparr>scale_basis := 0\<rparr>"
    by (simp add: tilted_analyzer_def)
  show ?thesis
    unfolding init_def c vis_tilted
    apply (simp add: list_all_replicate Let_def del: power_numeral)
    apply (simp only: pre roll sc)
    apply (simp add: tilted_analyzer_def)
    done
qed

lemma length_tilted_points: "length tilted_points = 468"
  by (simp add: tilted_points_def)

lemma get_point_tilted:
  "get_point tilted_analyzer ''L_eye_outer'' = Some (3/10, 2/5, 0)"
  "get_point tilted_analyzer ''L_eye_inner'' = Some (2/5, 1/2, 0)"
  by (simp_all add: get_point_def tilted_analyzer_def FALLBACK_INDICES_def py_index_tilted
      list_all_replicate py_index_replicate length_tilted_points)

lemma eyes_side_keeps:
  "k \<noteq> ''fissure_length_'' @ side \<Longrightarrow> k \<noteq> ''canthal_tilt_deg_'' @ side \<Longrightarrow>
   map_of (eyes_side self side d) k = map_of d k"
  by (simp add: eyes_side_def Let_def map_of_py_setitem split: option.splits)

lemma eyes_intercanthal_keeps:
  "k \<noteq> ''intercanthal_over_eye_width'' \<Longrightarrow> map_of (eyes_intercanthal self d) k = map_of d k"
  by (simp add: eyes_intercanthal_def Let_def map_of_py_setitem split: option.splits)

lemma eyes_brow_keeps:
  "k \<noteq> ''brow_height_'' @ side \<Longrightarrow> k \<noteq> ''brow_slope_'' @ side \<Longrightarrow>
   map_of (eyes_brow self side d) k = map_of d k"
  by (simp add: eyes_brow_def Let_def map_of_py_setitem split: option.splits)

lemma eyes_side_tilt:
  "get_point self (side @ ''_eye_outer'') = Some outer \<Longrightarrow>
   get_point self (side @ ''_eye_inner'') = Some inner \<Longrightarrow>
   map_of (eyes_side self side d) (''canthal_tilt_deg_'' @ side)
     = Some (metric (PFloat (degrees (arctan2 (vy outer - vy inner) \<bar>vx outer - vx inner\<bar>)))
               ''2D'' [side @ ''_eye_outer'', side @ ''_eye_inner''])"
  by (simp add: eyes_side_def Let_def map_of_py_setitem)

lemma canthal_tilt_L:
  "get_point self ''L_eye_outer'' = Some outer \<Longrightarrow>
   get_point self ''L_eye_inner'' = Some inner \<Longrightarrow>
   metric_value_of (analyze_eyes self) ''canthal_tilt_deg_L''
     = Some (PFloat (degrees (arctan2 (vy outer - vy inner) \<bar>vx outer - vx inner\<bar>)))"
  using eyes_side_tilt[of self "''L''" outer inner "[]"]
  by (simp add: analyze_eyes_def metric_value_of_def sub_dict_def eyes_brow_keeps
      eyes_intercanthal_keeps eyes_side_keeps metric_def create_metric_def)

lemma canthal_tilt_in_eyes:
  "(case init tilted_landmarks None None of
      Inl e \<Rightarrow> False
    | Inr a \<Rightarrow>
        get_point a ''L_eye_outer'' = Some (3/10, 2/5, 0)
        \<and> get_point a ''L_eye_inner'' = Some (2/5, 1/2, 0)
        \<and> metric_value_of (analyze_eyes a) ''canthal_tilt_deg_L'' = Some (PFloat (- 45)))"
  by (simp add: init_tilted get_point_tilted canthal_tilt_L[OF get_point_tilted]
      vx_def vy_def arctan2_def degrees_def arctan_minus arctan_one)

subsection \<open>The analysis depends on the analyzer only through point lookup and scale\<close>

lemma get_point_structure: "get_point (self\<lparr>self_structure := s\<rparr>) = get_point self"
  by (auto simp: get_point_def fun_eq_iff split: option.splits)

lemma get_point_landmarks: "get_point (self\<lparr>landmarks := l\<rparr>) = get_point self"
  by (auto simp: get_point_def fun_eq_iff split: option.splits)

lemma same_view_structure:
  "same_view a b \<Longrightarrow> same_view (a\<lparr>self_structure := s\<rparr>) (b\<lparr>self_structure := t\<rparr>)"
  by (simp add: same_view_def get_point_structure)

lemma same_view_landmarks: "same_view a (a\<lparr>landmarks := l\<rparr>)"
  by (simp add: same_view_def get_point_landmarks)

lemma same_viewD:
  assumes "same_view a b"
  shows "get_point a = get_point b" "scale_basis a = scale_basis b" "eps a = eps b"
    "blendshapes a = blendshapes b" "fallback_indices_used a = fallback_indices_used b"
    "visibility_threshold a = visibility_threshold b"
  using assms by (simp_all add: same_view_def)

lemma eyes_side_cong: "same_view a b \<Longrightarrow> eyes_side a = eyes_side b"
  by (intro ext, unfold eyes_side_def) (simp only: same_viewD)

lemma eyes_intercanthal_cong: "same_view a b \<Longrightarrow> eyes_intercanthal a = eyes_intercanthal b"
  by (intro ext, unfold eyes_intercanthal_def) (simp only: same_viewD)

lemma eyes_brow_cong: "same_view a b \<Longrightarrow> eyes_brow a = eyes_brow b"
  by (intro ext, unfold eyes_brow_def) (simp only: same_viewD)

lemma analyze_eyes_cong: "same_view a b \<Longrightarrow> analyze_eyes a = analyze_eyes b"
  unfolding analyze_eyes_def by (simp only: same_viewD eyes_side_cong[of a b] eyes_intercanthal_cong[of a b] eyes_brow_cong[of a b])

lemma nose_alar_cong: "same_view a b \<Longrightarrow> nose_alar a = nose_alar b"
  by (intro ext, unfold nose_alar_def) (simp only: same_viewD)

lemma nose_length_cong: "same_view a b \<Longrightarrow> nose_length a = nose_length b"
  by (intro ext, unfold nose_length_def) (simp only: same_viewD)

lemma nose_tip_projection_cong: "same_view a b \<Longrightarrow> nose_tip_projection a = nose_tip_projection b"
  by (intro ext, unfold nose_tip_projection_def) (simp only: same_viewD)

lemma nose_nasolabial_cong: "same_view a b \<Longrightarrow> nose_nasolabial a = nose_nasolabial b"
  by (intro ext, unfold nose_nasolabial_def) (simp only: same_viewD)

lemma analyze_nose_cong: "same_view a b \<Longrightarrow> analyze_nose a = analyze_nose b"
  unfolding analyze_nose_def by (simp only: same_viewD nose_alar_cong[of a b] nose_length_cong[of a b] nose_tip_projection_cong[of a b] nose_nasolabial_cong[of a b])

lemma mouth_width_cong: "same_view a b \<Longrightarrow> mouth_width rt a = mouth_width rt b"
  by (intro ext, unfold mouth_width_def) (simp only: same_viewD)

lemma mouth_lips_cong: "same_view a b \<Longrightarrow> mouth_lips a = mouth_lips b"
  by (intro ext, unfold mouth_lips_def) (simp only: same_viewD)

lemma mouth_bow_cong: "same_view a b \<Longrightarrow> mouth_bow a = mouth_bow b"
  by (intro ext, unfold mouth_bow_def) (simp only: same_viewD)

lemma analyze_mouth_cong: "same_view a b \<Longrightarrow> analyze_mouth rt a = analyze_mouth rt b"
  unfolding analyze_mouth_def by (simp only: same_viewD mouth_width_cong[of a b] mouth_lips_cong[of a b] mouth_bow_cong[of a b])

lemma compute_glabella_cong: "same_view a b \<Longrightarrow> compute_glabella a = compute_glabella b"
  unfolding compute_glabella_def by (simp only: same_viewD)

lemma structure_thirds_cong: "same_view a b \<Longrightarrow> structure_thirds a = structure_thirds b"
  by (intro ext, unfold structure_thirds_def) (simp only: same_viewD compute_glabella_cong[of a b])

lemma structure_height_width_cong: "same_view a b \<Longrightarrow> structure_height_width a = structure_height_width b"
  by (intro ext, unfold structure_height_width_def) (simp only: same_viewD)

lemma structure_jaw_cong: "same_view a b \<Longrightarrow> structure_jaw a = structure_jaw b"
  by (intro ext, unfold structure_jaw_def) (simp only: same_viewD)

lemma structure_chin_cong: "same_view a b \<Longrightarrow> structure_chin a = structure_chin b"
  by (intro ext, unfold structure_chin_def) (simp only: same_viewD)

lemma analyze_structure_cong: "same_view a b \<Longrightarrow> analyze_structure a = analyze_structure b"
  unfolding analyze_structure_def by (simp only: same_viewD compute_glabella_cong[of a b] structure_thirds_cong[of a b] structure_height_width_cong[of a b] structure_jaw_cong[of a b] structure_chin_cong[of a b])

lemma symmetry_pair_cong: "same_view a b \<Longrightarrow> symmetry_pair a = symmetry_pair b"
  by (intro ext, unfold symmetry_pair_def) (simp only: same_viewD)

lemma analyze_symmetry_cong: "same_view a b \<Longrightarrow> analyze_symmetry a = analyze_symmetry b"
  unfolding analyze_symmetry_def by (simp only: same_viewD symmetry_pair_cong[of a b])

lemma profile_e_line_cong: "same_view a b \<Longrightarrow> profile_e_line a = profile_e_line b"
  by (intro ext, unfold profile_e_line_def) (simp only: same_viewD)

lemma profile_midface_cong: "same_view a b \<Longrightarrow> profile_midface a = profile_midface b"
  by (intro ext, unfold profile_midface_def) (simp only: same_viewD)

lemma analyze_profile_cong: "same_view a b \<Longrightarrow> analyze_profile a = analyze_profile b"
  unfolding analyze_profile_def by (simp only: same_viewD profile_e_line_cong[of a b] profile_midface_cong[of a b])

lemma estimate_pose_cong: "same_view a b \<Longrightarrow> estimate_pose a = estimate_pose b"
  unfolding estimate_pose_def by (simp only: same_viewD )

lemma analyze_blendshapes_cong: "same_view a b \<Longrightarrow> analyze_blendshapes a = analyze_blendshapes b"
  unfolding analyze_blendshapes_def by (simp only: same_viewD )

lemma golden_eye_mouth_cong: "same_view a b \<Longrightarrow> golden_eye_mouth a = golden_eye_mouth b"
  by (intro ext, unfold golden_eye_mouth_def) (simp only: same_viewD)

lemma golden_height_width_cong: "same_view a b \<Longrightarrow> golden_height_width a = golden_height_width b"
  by (intro ext, unfold golden_height_width_def) (simp only: same_viewD)

lemma golden_nose_mouth_cong: "same_view a b \<Longrightarrow> golden_nose_mouth a = golden_nose_mouth b"
  by (intro ext, unfold golden_nose_mouth_def) (simp only: same_viewD)

lemma golden_fifths_cong: "same_view a b \<Longrightarrow> golden_fifths a = golden_fifths b"
  by (intro ext, unfold golden_fifths_def) (simp only: same_viewD)

lemma golden_thirds_cong:
  "same_view a b \<Longrightarrow> self_structure a = self_structure b \<Longrightarrow> golden_thirds a = golden_thirds b"
  by (intro ext, unfold golden_thirds_def) (simp only:)

lemma analyze_golden_cong:
  "same_view a b \<Longrightarrow> self_structure a = self_structure b \<Longrightarrow>
   analyze_golden_diagnostics a = analyze_golden_diagnostics b"
  unfolding analyze_golden_diagnostics_def
  by (simp only: golden_eye_mouth_cong[of a b] golden_height_width_cong[of a b]
      golden_nose_mouth_cong[of a b] golden_fifths_cong[of a b] golden_thirds_cong[of a b])

lemma analyze_cong:
  assumes "same_view a b"
  shows "analyze rt a = analyze rt b"
proof -
  let ?st = "analyze_structure b"
  have st: "analyze_structure a = ?st" using assms by (rule analyze_structure_cong)
  have v: "same_view (a\<lparr>self_structure := Some ?st\<rparr>) (b\<lparr>self_structure := Some ?st\<rparr>)"
    using assms by (rule same_view_structure)
  have g: "analyze_golden_diagnostics (a\<lparr>self_structure := Some ?st\<rparr>)
         = analyze_golden_diagnostics (b\<lparr>self_structure := Some ?st\<rparr>)"
    using v by (rule analyze_golden_cong) simp
  show ?thesis
    unfolding analyze_def Let_def st
    by (simp only: analyze_eyes_cong[OF assms] analyze_nose_cong[OF assms]
        analyze_mouth_cong[OF assms] analyze_symmetry_cong[OF v] analyze_profile_cong[OF v] g
        analyze_blendshapes_cong[OF v] estimate_pose_cong[OF v] same_viewD[OF v])
qed

subsection \<open>The analyzer built by the constructor\<close>

lemma list_all_map_eq: "list_all P (map f xs) = list_all (\<lambda>x. P (f x)) xs"
  by (induction xs) auto

lemma dot_T_rotate:
  "dot_T p ((c, - s, 0), (s, c, 0), (0, 0, 1)) = (vx p * c - vy p * s, vx p * s + vy p * c, vz p)"
  by (simp add: dot_T_def dot3_def vx_def vy_def vz_def)

lemma apply_roll_correction_eq:
  "apply_roll_correction s = s\<lparr>points := normalized_points (index_map s) (points s)\<rparr>"
  by (simp add: apply_roll_correction_def normalized_points_def roll_angle_of_def Let_def
      dot_T_rotate rotate_xy_def split: option.splits)

lemma indexed_dist_eq:
  "indexed_dist s l dl r dr = landmark_distance (index_map s) (points s) l dl r dr"
  by (simp add: indexed_dist_def landmark_distance_def dist_def split: option.splits)

lemma compute_scale_basis_eq:
  "eps s = 1 / 10^8 \<Longrightarrow> compute_scale_basis s = spec_scale_basis (index_map s) (points s)"
  unfolding compute_scale_basis_def spec_scale_basis_def indexed_dist_eq Let_def exceeds_def
  by (simp split: option.splits)

lemma init_Inr:
  "init lms bs im = Inr a \<longleftrightarrow> list_all has_coords lms \<and> a = built_analyzer lms bs im"
proof (cases "collect_points lms")
  case (Inl e)
  then have "\<not> list_all has_coords lms"
    using collect_points_Inr[of lms "map raw_point lms"] by simp
  with Inl show ?thesis by (simp add: init_def)
next
  case (Inr pts)
  then have h: "list_all has_coords lms" "pts = map raw_point lms"
    by (simp_all add: collect_points_Inr)
  show ?thesis
    unfolding init_def Inr Let_def apply_roll_correction_eq
    by (auto simp add: h built_analyzer_def compute_scale_basis_eq chosen_index_map_def
        stored_visibility_def list_all_map_eq)
qed

lemma init_Inl:
  "init lms bs im = Inl e \<longleftrightarrow> collect_points lms = Inl e"
  by (simp add: init_def Let_def split: sum.splits)

subsection \<open>Confidence values and normalization\<close>

lemma collect_points_cong:
  "map lm_coords l1 = map lm_coords l2 \<Longrightarrow> collect_points l1 = collect_points l2"
proof (induction l1 arbitrary: l2)
  case Nil
  then show ?case by simp
next
  case (Cons a l1)
  then obtain b l2' where l2: "l2 = b # l2'" by (cases l2) auto
  with Cons.prems have "lm_coords a = lm_coords b" "map lm_coords l1 = map lm_coords l2'"
    by simp_all
  with Cons.IH[of l2'] l2 show ?case by (simp cong: sum.case_cong)
qed

lemma raw_points_cong:
  assumes "map lm_coords l1 = map lm_coords l2"
  shows "map raw_point l1 = map raw_point l2"
proof -
  have r: "map raw_point l = map (\<lambda>r. case r of Inr p \<Rightarrow> p | Inl e \<Rightarrow> (0, 0, 0)) (map lm_coords l)"
    for l by (simp add: raw_point_def)
  show ?thesis by (simp only: r assms)
qed

lemma has_coords_cong:
  "map lm_coords l1 = map lm_coords l2 \<Longrightarrow> list_all has_coords l1 = list_all has_coords l2"
  using collect_points_cong[of l1 l2] collect_points_Inr[of l1 "map raw_point l1"]
    collect_points_Inr[of l2 "map raw_point l2"] raw_points_cong[of l1 l2]
  by auto

lemma init_same_coords:
  assumes c: "map lm_coords l1 = map lm_coords l2"
    and v: "stored_visibility l1 = stored_visibility l2"
  shows "init l2 bs im = (case init l1 bs im of Inl e \<Rightarrow> Inl e
                          | Inr a \<Rightarrow> Inr (a\<lparr>landmarks := l2\<rparr>))"
proof (cases "init l1 bs im")
  case (Inl e)
  then have "init l2 bs im = Inl e" using collect_points_cong[OF c] by (simp add: init_Inl)
  with Inl show ?thesis by simp
next
  case (Inr a)
  then have h: "list_all has_coords l1" "a = built_analyzer l1 bs im" by (simp_all add: init_Inr)
  have "list_all has_coords l2" using h(1) has_coords_cong[OF c] by simp
  moreover have "a\<lparr>landmarks := l2\<rparr> = built_analyzer l2 bs im"
    by (simp add: h(2) built_analyzer_def raw_points_cong[OF c] v)
  ultimately have "init l2 bs im = Inr (a\<lparr>landmarks := l2\<rparr>)" by (simp add: init_Inr)
  with Inr show ?thesis by simp
qed

lemma analyze_face_ratios_same_view:
  assumes "init l2 bs im = (case init l1 bs im of Inl e \<Rightarrow> Inl e | Inr a \<Rightarrow> Inr (f a))"
    and "\<And>a. init l1 bs im = Inr a \<Longrightarrow> same_view a (f a)"
  shows "analyze_face_ratios rt l1 bs im = analyze_face_ratios rt l2 bs im"
proof (cases "init l1 bs im")
  case (Inl e)
  with assms(1) show ?thesis by (simp add: analyze_face_ratios_def)
next
  case (Inr a)
  with assms(1) have "init l2 bs im = Inr (f a)" by simp
  with Inr analyze_cong[OF assms(2)[OF Inr], of rt] show ?thesis
    by (simp add: analyze_face_ratios_def)
qed

lemma stored_visibility_zero:
  "list_all (\<lambda>lm. get_visibility lm = 0) lms \<Longrightarrow> stored_visibility lms = map get_presence lms"
  by (simp add: stored_visibility_def)

lemma stored_visibility_presence:
  "stored_visibility (map presence_as_visibility lms) = map get_presence lms"
  by (simp add: stored_visibility_def presence_as_visibility_def get_visibility_def
      get_presence_def comp_def)

lemma lm_coords_presence: "map lm_coords (map presence_as_visibility lms) = map lm_coords lms"
  by (simp add: presence_as_visibility_def lm_coords_def cong: option.case_cong)

lemma presence_same_result:
  assumes "list_all (\<lambda>lm. lm_visibility lm = Some 0) lms"
  shows "(\<forall>a. init lms bs im = Inr a \<longrightarrow> visibility a = map get_presence lms)
       \<and> analyze_face_ratios rt lms bs im
           = analyze_face_ratios rt (map presence_as_visibility lms) bs im"
proof -
  from assms have z: "list_all (\<lambda>lm. get_visibility lm = 0) lms"
    by (induction lms) (auto simp: get_visibility_def)
  have v: "stored_visibility lms = stored_visibility (map presence_as_visibility lms)"
    by (simp only: stored_visibility_zero[OF z] stored_visibility_presence)
  have i: "init (map presence_as_visibility lms) bs im
         = (case init lms bs im of Inl e \<Rightarrow> Inl e
            | Inr a \<Rightarrow> Inr (a\<lparr>landmarks := map presence_as_visibility lms\<rparr>))"
    by (rule init_same_coords[OF lm_coords_presence[symmetric] v])
  have "analyze_face_ratios rt lms bs im
      = analyze_face_ratios rt (map presence_as_visibility lms) bs im"
    by (rule analyze_face_ratios_same_view[OF i]) (rule same_view_landmarks)
  moreover have "\<forall>a. init lms bs im = Inr a \<longrightarrow> visibility a = map get_presence lms"
    by (simp add: init_Inr built_analyzer_def stored_visibility_zero[OF z])
  ultimately show ?thesis by simp
qed


subsection \<open>All confidence values zero\<close>

lemma py_index_same_length:
  "length xs = length ys \<Longrightarrow> (py_index xs i = None) = (py_index ys i = None)"
  by (simp add: py_index_def Let_def)

lemma length_normalized_points: "length (normalized_points im pts) = length pts"
  by (simp add: normalized_points_def split: option.splits)

lemma length_stored_visibility: "length (stored_visibility lms) = length lms"
  by (simp add: stored_visibility_def)

lemma get_point_unchecked:
  assumes "list_all (\<lambda>v. v = 0) (visibility self)"
    and "map_of (index_map self) name = Some idx"
    and "0 \<le> idx" and "idx < int (length (points self))"
  shows "get_point self name = Some (points self ! nat idx)"
  using assms by (simp add: get_point_def py_index_def Let_def)

lemma stored_visibility_confident:
  "stored_visibility (map fully_confident lms) = replicate (length lms) 1"
proof -
  have g: "get_visibility (fully_confident lm) = 1" for lm
    by (simp add: get_visibility_def fully_confident_def)
  have "\<not> list_all (\<lambda>lm. get_visibility lm = 0) (map fully_confident lms)" if "lms \<noteq> []"
    using that by (cases lms) (simp_all add: g)
  then show ?thesis
    by (cases "lms = []") (simp_all add: stored_visibility_def g comp_def map_replicate_const)
qed

lemma lm_coords_confident: "map lm_coords (map fully_confident lms) = map lm_coords lms"
  by (simp add: fully_confident_def lm_coords_def cong: option.case_cong)

lemma py_index_replicate_Some:
  "py_index (replicate n x) i = Some v \<Longrightarrow> v = x"
  by (auto simp: py_index_def Let_def split: if_splits)

lemma get_point_confident:
  assumes z: "list_all (\<lambda>v. v = 0) vis" and l: "length vis = length pts"
  shows "get_point (s\<lparr>points := pts, visibility := vis, visibility_threshold := 3 / 10\<rparr>) name
       = get_point (s\<lparr>points := pts, visibility := replicate (length pts) 1,
                      visibility_threshold := 3 / 10\<rparr>) name"
proof (cases "map_of (index_map s) name")
  case None
  then show ?thesis by (simp add: get_point_def)
next
  case (Some idx)
  show ?thesis
  proof (cases "py_index (replicate (length pts) (1::real)) idx")
    case None
    then have "py_index pts idx = None"
      using py_index_same_length[of "replicate (length pts) (1::real)" pts idx] by simp
    with None Some z show ?thesis by (simp add: get_point_def)
  next
    case s: (Some v)
    then have "v = 1" by (rule py_index_replicate_Some)
    with s Some z show ?thesis by (simp add: get_point_def list_all_replicate)
  qed
qed

lemma zero_confidence_same_result:
  assumes "init lms bs im = Inr a" and "list_all (\<lambda>v. v = 0) (visibility a)"
  shows "(\<forall>name idx. map_of (index_map a) name = Some idx \<and> 0 \<le> idx
             \<and> idx < int (length lms) \<longrightarrow> get_point a name = Some (points a ! nat idx))
       \<and> analyze_face_ratios rt lms bs im
           = analyze_face_ratios rt (map fully_confident lms) bs im"
proof -
  from assms(1) have h: "list_all has_coords lms" "a = built_analyzer lms bs im"
    by (simp_all add: init_Inr)
  have len: "length (points a) = length lms"
    by (simp add: h(2) built_analyzer_def length_normalized_points)
  have first: "\<forall>name idx. map_of (index_map a) name = Some idx \<and> 0 \<le> idx
             \<and> idx < int (length lms) \<longrightarrow> get_point a name = Some (points a ! nat idx)"
    using get_point_unchecked[OF assms(2)] len by auto
  let ?lms = "map fully_confident lms"
  have hc: "list_all has_coords ?lms"
    using h(1) has_coords_cong[OF lm_coords_confident, of lms] by simp
  have i2: "init ?lms bs im = Inr (built_analyzer ?lms bs im)"
    using hc by (simp add: init_Inr)
  have raw: "map raw_point ?lms = map raw_point lms"
    by (rule raw_points_cong[OF lm_coords_confident])
  have raw': "map (raw_point \<circ> fully_confident) lms = map raw_point lms"
    using raw by simp
  have z: "list_all (\<lambda>v. v = 0) (stored_visibility lms)"
    using assms(2) by (simp add: h(2) built_analyzer_def)
  have gp: "get_point (built_analyzer lms bs im) = get_point (built_analyzer ?lms bs im)"
  proof
    fix name
    let ?pts = "normalized_points (chosen_index_map im) (map raw_point lms)"
    have l: "length (stored_visibility lms) = length ?pts"
      by (simp add: length_normalized_points length_stored_visibility)
    have "get_point (built_analyzer lms bs im) name
        = get_point (built_analyzer lms bs im\<lparr>points := ?pts,
            visibility := stored_visibility lms, visibility_threshold := 3 / 10\<rparr>) name"
      by (simp add: built_analyzer_def)
    also have "\<dots> = get_point (built_analyzer lms bs im\<lparr>points := ?pts,
            visibility := replicate (length ?pts) 1, visibility_threshold := 3 / 10\<rparr>) name"
      by (rule get_point_confident[OF z l])
    also have "\<dots> = get_point (built_analyzer ?lms bs im\<lparr>landmarks := lms\<rparr>) name"
      by (simp add: built_analyzer_def raw' stored_visibility_confident length_normalized_points)
    also have "\<dots> = get_point (built_analyzer ?lms bs im) name"
      by (simp add: get_point_landmarks)
    finally show "get_point (built_analyzer lms bs im) name
        = get_point (built_analyzer ?lms bs im) name" .
  qed
  have sv: "same_view (built_analyzer lms bs im) (built_analyzer ?lms bs im)"
    by (simp add: same_view_def gp) (simp add: built_analyzer_def raw')
  have "analyze_face_ratios rt lms bs im = analyze_face_ratios rt ?lms bs im"
    using assms(1) i2 analyze_cong[OF sv, of rt] by (simp add: analyze_face_ratios_def h(2))
  with first show ?thesis by simp
qed

subsection \<open>Instances of the confidence properties\<close>

lemma has_coords_at: "has_coords (landmark_at x y z v p)"
  by (simp add: has_coords_def landmark_at_def)

lemma raw_point_at: "raw_point (landmark_at x y z v p) = (x, y, z)"
  by (simp add: raw_point_def lm_coords_def landmark_at_def)

lemma confidence_at:
  "get_visibility (landmark_at x y z v p) = v" "get_presence (landmark_at x y z v p) = p"
  by (simp_all add: get_visibility_def get_presence_def landmark_at_def)

lemma chosen_eye_pair_map: "chosen_index_map (Some eye_pair_map) = eye_pair_map"
  by (simp add: chosen_index_map_def eye_pair_map_def)

lemma py_index_pair:
  "py_index pair_points 0 = Some (0, 0, 0)" "py_index pair_points 1 = Some (2, 0, 0)"
  "py_index pair_points 205 = None" "py_index pair_points 425 = None"
  by (simp_all add: py_index_def pair_points_def)

lemma rotate_xy_0: "rotate_xy 0 p = p"
  by (simp add: rotate_xy_def vx_def vy_def vz_def)

lemma normalized_pair: "normalized_points eye_pair_map pair_points = pair_points"
proof -
  have "roll_angle_of eye_pair_map pair_points = Some 0"
    by (simp add: roll_angle_of_def py_get_def eye_pair_map_def py_index_pair vx_def vy_def
        arctan2_def)
  then show ?thesis by (simp add: normalized_points_def rotate_xy_0 pair_points_def)
qed

lemma scale_pair: "spec_scale_basis eye_pair_map pair_points = 2"
  by (simp add: spec_scale_basis_def landmark_distance_def py_get_def eye_pair_map_def
      py_index_pair vx_def vy_def exceeds_def)

lemma init_pairs:
  "init confident_pair None (Some eye_pair_map) = Inr (pair_analyzer confident_pair [1, 1])"
  "init doubtful_pair None (Some eye_pair_map)
     = Inr (pair_analyzer doubtful_pair [1 / 10, 1 / 10])"
  "init presence_only_pair None (Some eye_pair_map)
     = Inr (pair_analyzer presence_only_pair [9 / 10, 9 / 10])"
  "init zero_confidence_pair None (Some eye_pair_map)
     = Inr (pair_analyzer zero_confidence_pair [0, 0])"
  by (simp_all add: init_Inr built_analyzer_def pair_analyzer_def chosen_eye_pair_map
      confident_pair_def doubtful_pair_def presence_only_pair_def zero_confidence_pair_def
      has_coords_at raw_point_at confidence_at stored_visibility_def
      pair_points_def[symmetric] normalized_pair scale_pair)


subsection \<open>The angle function and rotations\<close>

lemma sqrt_one_plus_quotient:
  assumes "x \<noteq> 0"
  shows "sqrt (1 + (y / x)\<^sup>2) = sqrt (x\<^sup>2 + y\<^sup>2) / \<bar>x\<bar>"
proof -
  have "1 + (y / x)\<^sup>2 = (x\<^sup>2 + y\<^sup>2) / x\<^sup>2"
    using assms by (simp add: power_divide add_divide_distrib)
  then show ?thesis by (simp add: real_sqrt_divide)
qed

lemma hyp_pos: "x \<noteq> 0 \<or> y \<noteq> 0 \<Longrightarrow> 0 < sqrt (x\<^sup>2 + y\<^sup>2)" for x y :: real
  by (auto simp: sum_power2_gt_zero_iff)

lemma cos_arctan_quotient:
  assumes "x \<noteq> 0"
  shows "cos (arctan (y / x)) = \<bar>x\<bar> / sqrt (x\<^sup>2 + y\<^sup>2)"
  by (simp add: cos_arctan sqrt_one_plus_quotient[OF assms])

lemma sin_arctan_quotient:
  assumes "x \<noteq> 0"
  shows "sin (arctan (y / x)) = (y / x) * \<bar>x\<bar> / sqrt (x\<^sup>2 + y\<^sup>2)"
  by (simp add: sin_arctan sqrt_one_plus_quotient[OF assms])

lemma cos_arctan2:
  assumes "x \<noteq> 0 \<or> y \<noteq> 0"
  shows "cos (arctan2 y x) = x / sqrt (x\<^sup>2 + y\<^sup>2)"
proof -
  consider "0 < x" | "x < 0" | "x = 0" "0 < y" | "x = 0" "y < 0"
    using assms by linarith
  then show ?thesis
  proof cases
    case 1
    then show ?thesis by (simp add: arctan2_def cos_arctan_quotient)
  next
    case 2
    then show ?thesis by (simp add: arctan2_def cos_arctan_quotient)
  next
    case 3
    then show ?thesis by (simp add: arctan2_def)
  next
    case 4
    then show ?thesis by (simp add: arctan2_def)
  qed
qed

lemma sin_arctan2:
  assumes "x \<noteq> 0 \<or> y \<noteq> 0"
  shows "sin (arctan2 y x) = y / sqrt (x\<^sup>2 + y\<^sup>2)"
proof -
  consider "0 < x" | "x < 0" | "x = 0" "0 < y" | "x = 0" "y < 0"
    using assms by linarith
  then show ?thesis
  proof cases
    case 1
    then show ?thesis by (simp add: arctan2_def sin_arctan_quotient)
  next
    case 2
    then show ?thesis by (simp add: arctan2_def sin_arctan_quotient)
  next
    case 3
    then show ?thesis by (simp add: arctan2_def)
  next
    case 4
    then show ?thesis by (simp add: arctan2_def)
  qed
qed

lemma arctan2_after_rotation:
  fixes dx dy :: real
  defines "t \<equiv> arctan2 dy dx"
  shows "arctan2 (dx * sin (- t) + dy * cos (- t)) (dx * cos (- t) - dy * sin (- t)) = 0"
proof (cases "dx = 0 \<and> dy = 0")
  case True
  then show ?thesis by (simp add: arctan2_def)
next
  case False
  then have nz: "dx \<noteq> 0 \<or> dy \<noteq> 0" by simp
  let ?r = "sqrt (dx\<^sup>2 + dy\<^sup>2)"
  have r: "0 < ?r" using nz by (rule hyp_pos)
  have c: "cos t = dx / ?r" and s: "sin t = dy / ?r"
    unfolding t_def using nz by (simp_all add: cos_arctan2 sin_arctan2)
  have y: "dx * sin (- t) + dy * cos (- t) = 0"
    by (simp add: c s)
  have "dx * cos (- t) - dy * sin (- t) = (dx\<^sup>2 + dy\<^sup>2) / ?r"
    by (simp add: c s power2_eq_square add_divide_distrib)
  also have "\<dots> = ?r"
    using r by (metis real_sqrt_pow2 less_imp_le nonzero_mult_div_cancel_left
        power2_eq_square less_numeral_extra(3) real_sqrt_ge_zero sum_power2_ge_zero)
  finally have x: "dx * cos (- t) - dy * sin (- t) = ?r" .
  show ?thesis unfolding y x using r by (simp add: arctan2_def)
qed



subsection \<open>Scale basis and roll correction\<close>

lemma py_index_map: "py_index (map f xs) i = map_option f (py_index xs i)"
  by (simp add: py_index_def Let_def)







lemma rotated_difference:
  "vy (rotate_xy t r) - vy (rotate_xy t l) = (vx r - vx l) * sin t + (vy r - vy l) * cos t"
  "vx (rotate_xy t r) - vx (rotate_xy t l) = (vx r - vx l) * cos t - (vy r - vy l) * sin t"
  by (simp_all add: rotate_xy_def vx_def vy_def algebra_simps)

lemma vz_rotate_xy: "vz (rotate_xy t p) = vz p"
  by (simp add: rotate_xy_def vz_def)

text \<open>
  Roll correction over the reals. When both outer-eye indices are within the landmark
  sequence, the constructor rotates every point about the origin in the XY-plane by the
  negative of the angle of the outer-eye line and leaves every z coordinate as it is; with
  exact \<open>arctan2\<close>, \<open>cos\<close> and \<open>sin\<close> the angle of the corrected outer-eye
  line is 0. Rounding is not modelled, so this says nothing about the size of the angle that
  double-precision arithmetic leaves.
\<close>

lemma roll_correction_exact_over_reals:
  assumes "init lms bs im = Inr a"
    and "py_index (map raw_point lms) (py_get (index_map a) ''L_eye_outer'' 33) = Some l"
    and "py_index (map raw_point lms) (py_get (index_map a) ''R_eye_outer'' 263) = Some r"
  shows "points a = map (rotate_xy (- arctan2 (vy r - vy l) (vx r - vx l))) (map raw_point lms)
       \<and> map vz (points a) = map vz (map raw_point lms)
       \<and> eye_line_angle_deg (index_map a) (points a) = Some 0"
proof -
  let ?t = "arctan2 (vy r - vy l) (vx r - vx l)"
  let ?raw = "map raw_point lms"
  from assms(1) have a: "a = built_analyzer lms bs im" by (simp add: init_Inr)
  have im: "index_map a = chosen_index_map im" by (simp add: a built_analyzer_def)
  have ang: "roll_angle_of (chosen_index_map im) ?raw = Some ?t"
    using assms(2,3) by (simp add: roll_angle_of_def im)
  have pts: "points a = map (rotate_xy (- ?t)) ?raw"
    by (simp add: a built_analyzer_def normalized_points_def ang)
  have z: "map vz (points a) = map vz ?raw"
    by (simp add: pts vz_rotate_xy comp_def)
  have l': "py_index (points a) (py_get (index_map a) ''L_eye_outer'' 33)
      = Some (rotate_xy (- ?t) l)"
    by (simp only: pts py_index_map[of "rotate_xy (- ?t)" ?raw] assms(2) option.map)
  have r': "py_index (points a) (py_get (index_map a) ''R_eye_outer'' 263)
      = Some (rotate_xy (- ?t) r)"
    by (simp only: pts py_index_map[of "rotate_xy (- ?t)" ?raw] assms(3) option.map)
  have "roll_angle_of (index_map a) (points a) = Some 0"
    unfolding roll_angle_of_def l' r'
    by (simp add: rotated_difference arctan2_after_rotation del: cos_minus sin_minus)
  then have "eye_line_angle_deg (index_map a) (points a) = Some 0"
    by (simp add: eye_line_angle_deg_def degrees_def)
  with pts z show ?thesis by simp
qed

lemma py_get_eye_pair:
  "py_get eye_pair_map ''L_eye_outer'' 33 = 0" "py_get eye_pair_map ''R_eye_outer'' 263 = 1"
  by (simp_all add: py_get_def eye_pair_map_def)

lemma init_upright:
  "init upright_pair None (Some eye_pair_map)
     = Inr (built_analyzer upright_pair None (Some eye_pair_map))"
  by (simp add: init_Inr upright_pair_def has_coords_at)

lemma raw_upright: "map raw_point upright_pair = [(0, 0, 5), (0, 2, 7)]"
  by (simp add: upright_pair_def raw_point_at)

text \<open>
  An eye line that points straight down: over the reals the correction turns it by a quarter
  turn onto the x axis and keeps the depths 5 and 7.
\<close>

lemma roll_correction_quarter_turn:
  "init upright_pair None (Some eye_pair_map)
     = Inr (built_analyzer upright_pair None (Some eye_pair_map))
   \<and> py_index (map raw_point upright_pair) 0 = Some (0, 0, 5)
   \<and> py_index (map raw_point upright_pair) 1 = Some (0, 2, 7)
   \<and> points (built_analyzer upright_pair None (Some eye_pair_map)) = [(0, 0, 5), (2, 0, 7)]
   \<and> eye_line_angle_deg eye_pair_map
        (points (built_analyzer upright_pair None (Some eye_pair_map))) = Some 0"
proof -
  have i: "index_map (built_analyzer upright_pair None (Some eye_pair_map)) = eye_pair_map"
    by (simp add: built_analyzer_def chosen_eye_pair_map)
  have l: "py_index (map raw_point upright_pair)
      (py_get (index_map (built_analyzer upright_pair None (Some eye_pair_map)))
         ''L_eye_outer'' 33) = Some (0, 0, 5)"
    by (simp add: i raw_upright py_get_eye_pair py_index_def)
  have r: "py_index (map raw_point upright_pair)
      (py_get (index_map (built_analyzer upright_pair None (Some eye_pair_map)))
         ''R_eye_outer'' 263) = Some (0, 2, 7)"
    by (simp add: i raw_upright py_get_eye_pair py_index_def)
  note t = roll_correction_exact_over_reals[OF init_upright l r]
  have p: "points (built_analyzer upright_pair None (Some eye_pair_map))
      = [(0, 0, 5), (2, 0, 7)]"
    using t by (simp add: raw_upright vx_def vy_def vz_def arctan2_def rotate_xy_def)
  have "eye_line_angle_deg eye_pair_map [(0, 0, 5), (2, 0, 7)] = Some 0"
    by (simp add: eye_line_angle_deg_def roll_angle_of_def py_get_eye_pair
        py_index_def vx_def vy_def arctan2_def degrees_def)
  with p show ?thesis
    by (simp add: init_upright raw_upright py_index_def)
qed

subsection \<open>Thirds evenness\<close>

lemma ratio_guarded: "1 / 10^8 < m \<Longrightarrow> ratio x m = Some (x / m)"
  by (simp add: ratio_def safe_ratio_def)

lemma structure_thirds_cases:
  assumes "eps self = 1 / 10^8"
  shows "structure_thirds self [] = []
       \<or> (\<exists>u l. structure_thirds self [] =
             [(''upper_to_middle_third'',
                 metric (PFloat u) ''2D'' [''glabella'', ''nasion'', ''subnasale'']),
              (''lower_to_middle_third'',
                 metric (PFloat l) ''2D'' [''subnasale'', ''chin_tip'', ''nasion''])])"
  using assms
  by (auto simp: structure_thirds_def Let_def ratio_guarded split: option.splits)

lemma structure_height_width_keeps:
  "k \<noteq> ''face_height_over_width'' \<Longrightarrow> map_of (structure_height_width self d) k = map_of d k"
  by (simp add: structure_height_width_def Let_def map_of_py_setitem split: option.splits)

lemma structure_jaw_keeps:
  "k \<noteq> ''gonial_width_normalized'' \<Longrightarrow> k \<noteq> ''mandibular_angle_deg'' \<Longrightarrow>
   map_of (structure_jaw self d) k = map_of d k"
  by (simp add: structure_jaw_def Let_def map_of_py_setitem split: option.splits)

lemma structure_chin_keeps:
  "k \<noteq> ''chin_prominence_3D'' \<Longrightarrow> map_of (structure_chin self d) k = map_of d k"
  by (simp add: structure_chin_def Let_def map_of_py_setitem split: option.splits)

lemma analyze_structure_thirds:
  "map_of (analyze_structure self) ''upper_to_middle_third''
     = map_of (structure_thirds self []) ''upper_to_middle_third''"
  "map_of (analyze_structure self) ''lower_to_middle_third''
     = map_of (structure_thirds self []) ''lower_to_middle_third''"
  by (simp_all add: analyze_structure_def structure_height_width_keeps structure_jaw_keeps
      structure_chin_keeps)

lemma golden_fifths_keeps:
  "k \<noteq> ''fifths_evenness'' \<Longrightarrow> map_of (golden_fifths self d) k = map_of d k"
  by (simp add: golden_fifths_def Let_def map_of_py_setitem split: option.splits)

lemma golden_thirds_absent:
  assumes "self_structure s = Some st"
    and "map_of st ''upper_to_middle_third'' = None"
    and "map_of st ''lower_to_middle_third'' = None"
  shows "golden_thirds s g0 = Inr g0"
  using assms by (simp add: golden_thirds_def thirds_value_def py_in_def)

lemma np_std_pair_value:
  "one_minus_std [PFloat u, PFloat l] = Inr (PFloat (1 - np_std [u, l]))"
  by (simp add: one_minus_std_def)

lemma golden_thirds_present:
  assumes "self_structure s = Some st"
    and "map_of st ''upper_to_middle_third'' = Some (metric (PFloat u) m1 sp1)"
    and "map_of st ''lower_to_middle_third'' = Some (metric (PFloat l) m2 sp2)"
  shows "golden_thirds s g0 =
     Inr (py_setitem g0 ''thirds_evenness''
            (create_metric (PFloat (1 - np_std [u, l])) ''2D'' [] True (7 / 10)))"
  using assms
  by (simp add: golden_thirds_def thirds_value_def py_in_def py_get_def metric_def
      create_metric_def np_std_pair_value)

lemma analyze_golden_unfold:
  "\<exists>g0. map_of g0 ''thirds_evenness'' = None
      \<and> analyze_golden_diagnostics s
          = (case golden_thirds s g0 of Inl e \<Rightarrow> Inl e | Inr g \<Rightarrow> Inr (golden_fifths s g))"
  unfolding analyze_golden_diagnostics_def Let_def
  by (rule exI[of _ "[(''phi_deviations'',
        PDict (fold phi_deviation
          (golden_nose_mouth s (golden_height_width s (golden_eye_mouth s []))) []))]"])
     simp

lemma thirds_in_same_pass:
  assumes "eps self = 1 / 10^8"
  shows "\<exists>g. analyze_golden_diagnostics (self\<lparr>self_structure := Some (analyze_structure self)\<rparr>)
            = Inr g
       \<and> py_in ''thirds_evenness'' g
           = (py_in ''upper_to_middle_third'' (analyze_structure self)
              \<and> py_in ''lower_to_middle_third'' (analyze_structure self))
       \<and> metric_value_of g ''thirds_evenness'' = spec_thirds_evenness (analyze_structure self)
       \<and> (spec_thirds_evenness (analyze_structure self) \<noteq> None)
           = (py_in ''upper_to_middle_third'' (analyze_structure self)
              \<and> py_in ''lower_to_middle_third'' (analyze_structure self))"
proof -
  let ?st = "analyze_structure self"
  let ?s = "self\<lparr>self_structure := Some ?st\<rparr>"
  obtain g0 where g0: "map_of g0 ''thirds_evenness'' = None"
    and un: "analyze_golden_diagnostics ?s
          = (case golden_thirds ?s g0 of Inl e \<Rightarrow> Inl e | Inr g \<Rightarrow> Inr (golden_fifths ?s g))"
    using analyze_golden_unfold[of ?s] by blast
  have ss: "self_structure ?s = Some ?st" by simp
  from structure_thirds_cases[OF assms] show ?thesis
  proof
    assume e: "structure_thirds self [] = []"
    have u: "map_of ?st ''upper_to_middle_third'' = None"
      and l: "map_of ?st ''lower_to_middle_third'' = None"
      by (simp_all add: analyze_structure_thirds e)
    have g: "analyze_golden_diagnostics ?s = Inr (golden_fifths ?s g0)"
      by (simp add: un golden_thirds_absent[OF ss u l])
    have "map_of (golden_fifths ?s g0) ''thirds_evenness'' = None"
      by (simp add: golden_fifths_keeps g0)
    then show ?thesis
      by (simp add: g py_in_def metric_value_of_def sub_dict_def spec_thirds_evenness_def u l)
  next
    assume "\<exists>u l. structure_thirds self [] =
             [(''upper_to_middle_third'',
                 metric (PFloat u) ''2D'' [''glabella'', ''nasion'', ''subnasale'']),
              (''lower_to_middle_third'',
                 metric (PFloat l) ''2D'' [''subnasale'', ''chin_tip'', ''nasion''])]"
    then obtain u l where e: "structure_thirds self [] =
             [(''upper_to_middle_third'',
                 metric (PFloat u) ''2D'' [''glabella'', ''nasion'', ''subnasale'']),
              (''lower_to_middle_third'',
                 metric (PFloat l) ''2D'' [''subnasale'', ''chin_tip'', ''nasion''])]"
      by blast
    have u: "map_of ?st ''upper_to_middle_third''
        = Some (metric (PFloat u) ''2D'' [''glabella'', ''nasion'', ''subnasale''])"
      and l: "map_of ?st ''lower_to_middle_third''
        = Some (metric (PFloat l) ''2D'' [''subnasale'', ''chin_tip'', ''nasion''])"
      by (simp_all add: analyze_structure_thirds e)
    let ?g = "py_setitem g0 ''thirds_evenness''
            (create_metric (PFloat (1 - np_std [u, l])) ''2D'' [] True (7 / 10))"
    have g: "analyze_golden_diagnostics ?s = Inr (golden_fifths ?s ?g)"
      by (simp add: un golden_thirds_present[OF ss u l])
    have "map_of (golden_fifths ?s ?g) ''thirds_evenness''
        = Some (create_metric (PFloat (1 - np_std [u, l])) ''2D'' [] True (7 / 10))"
      by (simp add: golden_fifths_keeps map_of_py_setitem)
    then show ?thesis
      by (simp add: g py_in_def metric_value_of_def sub_dict_def spec_thirds_evenness_def u l
          metric_def create_metric_def)
  qed
qed

lemma analyze_sub_dicts:
  assumes "analyze_golden_diagnostics (self\<lparr>self_structure := Some (analyze_structure self)\<rparr>)
            = Inr g"
  shows "\<exists>r. analyze rt self = Inr r
       \<and> sub_dict r ''structure'' = Some (analyze_structure self)
       \<and> sub_dict r ''golden_diagnostics'' = Some g"
  using assms by (simp add: analyze_def Let_def sub_dict_def)

text \<open>
  C6. In the result of a constructed analyzer, \<^verbatim>\<open>golden_diagnostics\<close>
  holds a \<^verbatim>\<open>thirds_evenness\<close> entry exactly when
  \<^verbatim>\<open>structure\<close> of the same result holds both
  \<^verbatim>\<open>upper_to_middle_third\<close> and
  \<^verbatim>\<open>lower_to_middle_third\<close>; both then carry a number, and the value of
  the entry is 1 minus the population standard deviation of the two.
\<close>

theorem thirds_evenness_from_structure:
  assumes "init lms bs im = Inr a"
  shows "\<exists>st g. sub_dict (analyze_face_ratios rt lms bs im) ''structure'' = Some st
       \<and> sub_dict (analyze_face_ratios rt lms bs im) ''golden_diagnostics'' = Some g
       \<and> py_in ''thirds_evenness'' g
           = (py_in ''upper_to_middle_third'' st \<and> py_in ''lower_to_middle_third'' st)
       \<and> metric_value_of g ''thirds_evenness'' = spec_thirds_evenness st
       \<and> (spec_thirds_evenness st \<noteq> None)
           = (py_in ''upper_to_middle_third'' st \<and> py_in ''lower_to_middle_third'' st)"
proof -
  from assms have "eps a = 1 / 10^8" by (simp add: init_Inr built_analyzer_def)
  from thirds_in_same_pass[OF this] obtain g where
    g: "analyze_golden_diagnostics (a\<lparr>self_structure := Some (analyze_structure a)\<rparr>) = Inr g"
    and p: "py_in ''thirds_evenness'' g
           = (py_in ''upper_to_middle_third'' (analyze_structure a)
              \<and> py_in ''lower_to_middle_third'' (analyze_structure a))"
      "metric_value_of g ''thirds_evenness'' = spec_thirds_evenness (analyze_structure a)"
      "(spec_thirds_evenness (analyze_structure a) \<noteq> None)
           = (py_in ''upper_to_middle_third'' (analyze_structure a)
              \<and> py_in ''lower_to_middle_third'' (analyze_structure a))"
    by blast
  from analyze_sub_dicts[OF g, of rt] obtain r where
    r: "analyze rt a = Inr r" "sub_dict r ''structure'' = Some (analyze_structure a)"
      "sub_dict r ''golden_diagnostics'' = Some g"
    by blast
  have "analyze_face_ratios rt lms bs im = r"
    by (simp add: analyze_face_ratios_def assms r(1))
  with r(2,3) p show ?thesis by blast
qed

subsection \<open>An instance of thirds evenness\<close>

lemma dist_2D_plumb: "vx p = vx q \<Longrightarrow> dist p q ''2D'' = \<bar>vy p - vy q\<bar>"
  by (simp add: dist_def)

lemma sqrt_quarter: "sqrt (1 / 4) = 1 / 2"
  by (simp add: real_sqrt_divide)

lemma init_face: "init face_landmarks None (Some face_map) = Inr face_analyzer0"
proof -
  have c: "chosen_index_map (Some face_map) = face_map"
    by (simp add: chosen_index_map_def face_map_def)
  have raw: "map raw_point face_landmarks = [(0, 0, 0), (0, 1, 0), (0, 3, 0), (0, 6, 0)]"
    by (simp add: face_landmarks_def raw_point_at)
  have g: "py_get face_map ''L_eye_outer'' 33 = 33" "py_get face_map ''R_eye_outer'' 263 = 263"
    "py_get face_map ''L_cheek'' 205 = 205" "py_get face_map ''R_cheek'' 425 = 425"
    by (simp_all add: py_get_def face_map_def)
  have n: "normalized_points face_map [(0, 0, 0), (0, 1, 0), (0, 3, 0), (0, 6, 0)]
      = [(0, 0, 0), (0, 1, 0), (0, 3, 0), (0, 6, 0)]"
    by (simp add: normalized_points_def roll_angle_of_def g py_index_def)
  have s: "spec_scale_basis face_map [(0, 0, 0), (0, 1, 0), (0, 3, 0), (0, 6, 0)] = 1"
    by (simp add: spec_scale_basis_def landmark_distance_def g py_index_def exceeds_def)
  have v: "stored_visibility face_landmarks = [1, 1, 1, 1]"
    by (simp add: stored_visibility_def face_landmarks_def confidence_at)
  have h: "list_all has_coords face_landmarks"
    by (simp add: face_landmarks_def has_coords_at)
  show ?thesis
    by (simp add: init_Inr h built_analyzer_def face_analyzer0_def c raw n s v)
qed

lemma get_point_face:
  "get_point face_analyzer0 ''L_brow_inner'' = Some (0, 0, 0)"
  "get_point face_analyzer0 ''R_brow_inner'' = Some (0, 0, 0)"
  "get_point face_analyzer0 ''nasion'' = Some (0, 1, 0)"
  "get_point face_analyzer0 ''subnasale'' = Some (0, 3, 0)"
  "get_point face_analyzer0 ''chin_tip'' = Some (0, 6, 0)"
  by (simp_all add: get_point_def face_analyzer0_def face_map_def py_index_def)

lemma structure_thirds_face:
  "structure_thirds face_analyzer0 [] =
     [(''upper_to_middle_third'',
         metric (PFloat (1 / 2)) ''2D'' [''glabella'', ''nasion'', ''subnasale'']),
      (''lower_to_middle_third'',
         metric (PFloat (3 / 2)) ''2D'' [''subnasale'', ''chin_tip'', ''nasion''])]"
proof -
  have e: "eps face_analyzer0 = 1 / 10^8" by (simp add: face_analyzer0_def)
  have g: "compute_glabella face_analyzer0 = Some (0, 0, 0)"
    by (simp add: compute_glabella_def get_point_face add3_def div3_def vx_def vy_def vz_def)
  show ?thesis
    by (simp add: structure_thirds_def g get_point_face e dist_2D_plumb vx_def vy_def
        ratio_def safe_ratio_def)
qed

lemma result_structure:
  assumes "init lms bs im = Inr a"
  shows "sub_dict (analyze_face_ratios rt lms bs im) ''structure'' = Some (analyze_structure a)"
proof -
  from assms have "eps a = 1 / 10^8" by (simp add: init_Inr built_analyzer_def)
  from thirds_in_same_pass[OF this] obtain g where
    "analyze_golden_diagnostics (a\<lparr>self_structure := Some (analyze_structure a)\<rparr>) = Inr g"
    by blast
  from analyze_sub_dicts[OF this, of rt] assms show ?thesis
    by (auto simp: analyze_face_ratios_def)
qed

text \<open>
  C6 at the small face: the thirds are 1, 2 and 3 long, the two ratios are 1/2 and 3/2, and
  the evenness is 1 - 1/2.
\<close>

theorem thirds_evenness_from_structure_witness:
  "init face_landmarks None (Some face_map) = Inr face_analyzer0
   \<and> (\<exists>st g. sub_dict (analyze_face_ratios null_runtime face_landmarks None (Some face_map))
                 ''structure'' = Some st
        \<and> sub_dict (analyze_face_ratios null_runtime face_landmarks None (Some face_map))
                 ''golden_diagnostics'' = Some g
        \<and> metric_value_of st ''upper_to_middle_third'' = Some (PFloat (1 / 2))
        \<and> metric_value_of st ''lower_to_middle_third'' = Some (PFloat (3 / 2))
        \<and> py_in ''thirds_evenness'' g
        \<and> metric_value_of g ''thirds_evenness'' = Some (PFloat (1 / 2)))"
proof -
  let ?r = "analyze_face_ratios null_runtime face_landmarks None (Some face_map)"
  from thirds_evenness_from_structure[OF init_face, of null_runtime]
  obtain st g where s: "sub_dict ?r ''structure'' = Some st"
    and g: "sub_dict ?r ''golden_diagnostics'' = Some g"
    and p: "py_in ''thirds_evenness'' g
           = (py_in ''upper_to_middle_third'' st \<and> py_in ''lower_to_middle_third'' st)"
      "metric_value_of g ''thirds_evenness'' = spec_thirds_evenness st"
    by blast
  have st: "st = analyze_structure face_analyzer0"
    using s result_structure[OF init_face, of null_runtime] by simp
  have u: "metric_value_of st ''upper_to_middle_third'' = Some (PFloat (1 / 2))"
    and l: "metric_value_of st ''lower_to_middle_third'' = Some (PFloat (3 / 2))"
    by (simp_all add: st metric_value_of_def sub_dict_def analyze_structure_thirds
        structure_thirds_face metric_def create_metric_def)
  have i: "py_in ''upper_to_middle_third'' st" "py_in ''lower_to_middle_third'' st"
    by (simp_all add: st py_in_def analyze_structure_thirds structure_thirds_face)
  have "spec_thirds_evenness st = Some (PFloat (1 / 2))"
    by (simp add: spec_thirds_evenness_def u l np_std_def np_mean_def sqrt_quarter)
  with s g p u l i init_face show ?thesis by auto
qed

subsection \<open>The two defects, in the returned dictionary\<close>

lemma result_regions:
  assumes "init lms bs im = Inr a"
  shows "sub_dict (analyze_face_ratios rt lms bs im) ''eyes'' = Some (analyze_eyes a)"
    and "sub_dict (analyze_face_ratios rt lms bs im) ''nose'' = Some (analyze_nose a)"
proof -
  from assms have "eps a = 1 / 10^8" by (simp add: init_Inr built_analyzer_def)
  from thirds_in_same_pass[OF this] obtain g where
    g: "analyze_golden_diagnostics (a\<lparr>self_structure := Some (analyze_structure a)\<rparr>) = Inr g"
    by blast
  show "sub_dict (analyze_face_ratios rt lms bs im) ''eyes'' = Some (analyze_eyes a)"
    by (simp add: analyze_face_ratios_def assms analyze_def Let_def g sub_dict_def)
  show "sub_dict (analyze_face_ratios rt lms bs im) ''nose'' = Some (analyze_nose a)"
    by (simp add: analyze_face_ratios_def assms analyze_def Let_def g sub_dict_def)
qed

text \<open>
  C2. The claim says that a ratio whose denominator is below \<open>1e-8\<close> is omitted
  and that no metric carries a null value. At the degenerate detection the two inner-eye
  points coincide, and the \<^verbatim>\<open>nose\<close> mapping of the returned result holds
  \<^verbatim>\<open>alar_width_over_inter_eye\<close> with the value \<^verbatim>\<open>None\<close>:
  \<^verbatim>\<open>analyze_nose\<close> stores the result of \<^verbatim>\<open>safe_ratio\<close> without
  the test for \<^verbatim>\<open>None\<close> that every other ratio of the module has.
\<close>

theorem alar_ratio_null_emitted:
  "\<exists>nose. sub_dict (analyze_face_ratios rt (replicate 468 lm0) None None) ''nose'' = Some nose
     \<and> map_of nose ''alar_width_over_inter_eye''
         = Some (PDict [(''value'', PNone), (''method'', PStr ''2D''),
                  (''source_points'', PList [PStr ''alare_L'', PStr ''alare_R'',
                                              PStr ''L_eye_inner'', PStr ''R_eye_inner'']),
                  (''valid'', PBool True), (''confidence'', PFloat 1)])
     \<and> metric_value_of nose ''alar_width_over_inter_eye'' = Some PNone"
  using alar_ratio_null_in_nose result_regions(2)[OF init_degenerate, of rt]
  by (simp add: init_degenerate metric_value_of_def sub_dict_def)

text \<open>
  C8. The claim says that the tilt is positive when the outer corner is higher than the inner
  corner, as the comment in \<^verbatim>\<open>analyze_eyes\<close> does (positive = upward
  slant). The code takes \<^verbatim>\<open>dy = outer[1] - inner[1]\<close> with \<open>y\<close>
  growing downward, so a raised outer corner gives a negative tilt: at the tilted detection
  the left outer corner is at height 2/5, the inner corner at 1/2, and the
  \<^verbatim>\<open>eyes\<close> mapping of the returned result holds a tilt of \<open>-45\<close> degrees.
\<close>

theorem canthal_tilt_negative_for_raised_outer_corner:
  "init tilted_landmarks None None = Inr tilted_analyzer
   \<and> get_point tilted_analyzer ''L_eye_outer'' = Some (3/10, 2/5, 0)
   \<and> get_point tilted_analyzer ''L_eye_inner'' = Some (2/5, 1/2, 0)
   \<and> (\<exists>eyes. sub_dict (analyze_face_ratios rt tilted_landmarks None None) ''eyes'' = Some eyes
          \<and> metric_value_of eyes ''canthal_tilt_deg_L'' = Some (PFloat (- 45)))"
  using canthal_tilt_in_eyes result_regions(1)[OF init_tilted, of rt]
  by (simp add: init_tilted)

subsection \<open>Metrics that need only their points\<close>

lemma found:
  "all_found s \<Longrightarrow> n \<in> set used_names \<Longrightarrow> get_point s n = Some (found_point s n)"
  by (auto simp: all_found_def found_point_def list_all_iff)

lemma found_names:
  assumes "all_found s"
  shows
    "get_point s ''chin_tip'' = Some (found_point s ''chin_tip'')"
    "get_point s ''nose_tip'' = Some (found_point s ''nose_tip'')"
    "get_point s ''subnasale'' = Some (found_point s ''subnasale'')"
    "get_point s ''L_eye_outer'' = Some (found_point s ''L_eye_outer'')"
    "get_point s ''L_eye_inner'' = Some (found_point s ''L_eye_inner'')"
    "get_point s ''R_eye_inner'' = Some (found_point s ''R_eye_inner'')"
    "get_point s ''R_eye_outer'' = Some (found_point s ''R_eye_outer'')"
    "get_point s ''L_brow_inner'' = Some (found_point s ''L_brow_inner'')"
    "get_point s ''R_brow_inner'' = Some (found_point s ''R_brow_inner'')"
    "get_point s ''L_brow_outer'' = Some (found_point s ''L_brow_outer'')"
    "get_point s ''R_brow_outer'' = Some (found_point s ''R_brow_outer'')"
    "get_point s ''alare_L'' = Some (found_point s ''alare_L'')"
    "get_point s ''alare_R'' = Some (found_point s ''alare_R'')"
    "get_point s ''labiale_superius'' = Some (found_point s ''labiale_superius'')"
    "get_point s ''labiale_inferius'' = Some (found_point s ''labiale_inferius'')"
    "get_point s ''stomion'' = Some (found_point s ''stomion'')"
    "get_point s ''cheilion_L'' = Some (found_point s ''cheilion_L'')"
    "get_point s ''cheilion_R'' = Some (found_point s ''cheilion_R'')"
    "get_point s ''gonion_L'' = Some (found_point s ''gonion_L'')"
    "get_point s ''gonion_R'' = Some (found_point s ''gonion_R'')"
    "get_point s ''menton'' = Some (found_point s ''menton'')"
    "get_point s ''nasion'' = Some (found_point s ''nasion'')"
    "get_point s ''L_ear_top'' = Some (found_point s ''L_ear_top'')"
    "get_point s ''R_ear_top'' = Some (found_point s ''R_ear_top'')"
    "get_point s ''L_cheek'' = Some (found_point s ''L_cheek'')"
    "get_point s ''R_cheek'' = Some (found_point s ''R_cheek'')"
  by (simp_all add: found[OF assms] used_names_def)

lemma eyes_keys:
  assumes "all_found s"
  shows "list_all (\<lambda>k. py_in k (analyze_eyes s))
           [''fissure_length_L'', ''canthal_tilt_deg_L'', ''fissure_length_R'',
            ''canthal_tilt_deg_R'', ''brow_height_L'', ''brow_slope_L'', ''brow_height_R'',
            ''brow_slope_R'']"
  by (simp add: analyze_eyes_def eyes_side_def eyes_brow_def eyes_intercanthal_keeps
      found_names[OF assms] py_in_def map_of_py_setitem Let_def)

lemma nose_keys:
  assumes "all_found s"
  shows "list_all (\<lambda>k. py_in k (analyze_nose s))
           [''alar_width_over_inter_eye'', ''tip_projection_3D_over_IPD'',
            ''nasal_tip_to_upper_lip_angle_deg'']"
  by (simp add: analyze_nose_def nose_alar_def nose_tip_projection_def nose_nasolabial_def
      nose_length_keeps found_names[OF assms] py_in_def map_of_py_setitem Let_def)

lemma mouth_lips_keeps:
  "k \<noteq> ''upper_to_lower_lip_ratio'' \<Longrightarrow> map_of (mouth_lips self d) k = map_of d k"
  by (simp add: mouth_lips_def Let_def map_of_py_setitem split: option.splits)

lemma mouth_keys:
  assumes "all_found s"
  shows "list_all (\<lambda>k. py_in k (analyze_mouth rt s))
           [''mouth_width_over_IPD'', ''smile_arc_curvature'', ''cupid_bow_depth'']"
  by (simp add: analyze_mouth_def mouth_width_def mouth_bow_def mouth_lips_keeps
      found_names[OF assms] py_in_def map_of_py_setitem Let_def)

lemma structure_keys:
  assumes "all_found s"
  shows "list_all (\<lambda>k. py_in k (analyze_structure s))
           [''gonial_width_normalized'', ''mandibular_angle_deg'', ''chin_prominence_3D'']"
  by (simp add: analyze_structure_def structure_jaw_def structure_chin_def
      found_names[OF assms] py_in_def map_of_py_setitem Let_def)

lemma symmetry_pair_grows:
  "fst acc \<noteq> [] \<Longrightarrow> fst (symmetry_pair s p acc) \<noteq> []"
  by (cases acc; cases p) (simp add: symmetry_pair_def Let_def split: option.splits)

lemma symmetry_fold_grows:
  "fst acc \<noteq> [] \<Longrightarrow> fst (fold (symmetry_pair s) ps acc) \<noteq> []"
  by (induction ps arbitrary: acc) (simp_all add: symmetry_pair_grows)

lemma symmetry_keys:
  assumes "all_found s"
  shows "list_all (\<lambda>k. py_in k (analyze_symmetry s))
           [''midline_symmetry_score'', ''bilateral_feature_deltas'']"
proof -
  have "fst (symmetry_pair s (''L_eye_outer'', ''R_eye_outer'') ([], [])) \<noteq> []"
    by (simp add: symmetry_pair_def Let_def found_names[OF assms])
  then have "fst (fold (symmetry_pair s) symmetry_pairs ([], [])) \<noteq> []"
    by (simp add: symmetry_pairs_def symmetry_pair_grows)
  then show ?thesis
    by (simp add: analyze_symmetry_def Let_def case_prod_beta py_in_def map_of_py_setitem)
qed

lemma profile_midface_keeps:
  "k \<noteq> ''midface_depth_over_face_width'' \<Longrightarrow> map_of (profile_midface self d) k = map_of d k"
  by (simp add: profile_midface_def Let_def map_of_py_setitem split: option.splits)

lemma profile_keys:
  assumes "all_found s"
  shows "list_all (\<lambda>k. py_in k (analyze_profile s)) [''e_line_upper_lip'', ''e_line_lower_lip'']"
  by (simp add: analyze_profile_def profile_e_line_def profile_midface_keeps
      found_names[OF assms] py_in_def map_of_py_setitem Let_def split: option.splits)

lemma pose_keys:
  assumes "all_found s"
  shows "list_all (\<lambda>k. py_in k (estimate_pose s)) [''roll_deg'', ''yaw_deg'', ''pitch_deg'']"
  by (simp add: estimate_pose_def found_names[OF assms] py_in_def map_of_py_setitem
      Let_def)

lemma golden_thirds_keeps:
  "golden_thirds s g0 = Inr g1 \<Longrightarrow> k \<noteq> ''thirds_evenness'' \<Longrightarrow> map_of g1 k = map_of g0 k"
  by (auto simp: golden_thirds_def Let_def map_of_py_setitem split: option.splits sum.splits
      if_splits)

lemma golden_keys:
  assumes "all_found s" and "analyze_golden_diagnostics s = Inr g"
  shows "list_all (\<lambda>k. py_in k g) [''phi_deviations'', ''fifths_evenness'']"
proof -
  let ?g0 = "[(''phi_deviations'', PDict (fold phi_deviation
       (golden_nose_mouth s (golden_height_width s (golden_eye_mouth s []))) []))]"
  from assms(2) obtain g1 where g1: "golden_thirds s ?g0 = Inr g1" and g: "g = golden_fifths s g1"
    by (auto simp: analyze_golden_diagnostics_def Let_def split: sum.splits)
  have p: "map_of g1 ''phi_deviations'' \<noteq> None"
    using golden_thirds_keeps[OF g1, of "''phi_deviations''"] by simp
  show ?thesis
    using p
    by (simp add: g golden_fifths_def found_names[OF assms(1)] py_in_def
        map_of_py_setitem Let_def)
qed

lemma all_found_structure: "all_found (s\<lparr>self_structure := x\<rparr>) = all_found s"
  by (simp add: all_found_def get_point_structure)

lemma result_all_regions:
  assumes "init lms bs im = Inr a"
  shows "\<exists>g. analyze_golden_diagnostics (a\<lparr>self_structure := Some (analyze_structure a)\<rparr>)
              = Inr g
     \<and> analyze_face_ratios rt lms bs im =
         [(''normalization'',
             PDict [(''scale_basis'', PFloat (scale_basis a)),
                    (''fallback_indices_used'', PBool (fallback_indices_used a)),
                    (''visibility_threshold'', PFloat (visibility_threshold a))]),
          (''pose_estimation'',
             PDict (estimate_pose (a\<lparr>self_structure := Some (analyze_structure a)\<rparr>))),
          (''eyes'', PDict (analyze_eyes a)),
          (''nose'', PDict (analyze_nose a)),
          (''mouth'', PDict (analyze_mouth rt a)),
          (''structure'', PDict (analyze_structure a)),
          (''symmetry'',
             PDict (analyze_symmetry (a\<lparr>self_structure := Some (analyze_structure a)\<rparr>))),
          (''profile'',
             PDict (analyze_profile (a\<lparr>self_structure := Some (analyze_structure a)\<rparr>))),
          (''golden_diagnostics'', PDict g),
          (''blendshape_summary'',
             PDict (analyze_blendshapes (a\<lparr>self_structure := Some (analyze_structure a)\<rparr>)))]"
proof -
  from assms have "eps a = 1 / 10^8" by (simp add: init_Inr built_analyzer_def)
  from thirds_in_same_pass[OF this] obtain g where
    g: "analyze_golden_diagnostics (a\<lparr>self_structure := Some (analyze_structure a)\<rparr>) = Inr g"
    by blast
  show ?thesis
    by (simp add: analyze_face_ratios_def assms analyze_def Let_def g)
qed

lemma full_metric_set:
  assumes i: "init lms bs im = Inr a" and f: "all_found a"
  shows "list_all (\<lambda>p. has_metric (analyze_face_ratios rt lms bs im) (fst p) (snd p))
           unconditional_metrics"
proof -
  let ?a = "a\<lparr>self_structure := Some (analyze_structure a)\<rparr>"
  have f': "all_found ?a" using f by (simp add: all_found_structure)
  from result_all_regions[OF i, of rt] obtain g where
    g: "analyze_golden_diagnostics ?a = Inr g"
    and r: "analyze_face_ratios rt lms bs im =
         [(''normalization'',
             PDict [(''scale_basis'', PFloat (scale_basis a)),
                    (''fallback_indices_used'', PBool (fallback_indices_used a)),
                    (''visibility_threshold'', PFloat (visibility_threshold a))]),
          (''pose_estimation'', PDict (estimate_pose ?a)),
          (''eyes'', PDict (analyze_eyes a)),
          (''nose'', PDict (analyze_nose a)),
          (''mouth'', PDict (analyze_mouth rt a)),
          (''structure'', PDict (analyze_structure a)),
          (''symmetry'', PDict (analyze_symmetry ?a)),
          (''profile'', PDict (analyze_profile ?a)),
          (''golden_diagnostics'', PDict g),
          (''blendshape_summary'', PDict (analyze_blendshapes ?a))]"
    by blast
  note k = eyes_keys[OF f] nose_keys[OF f] mouth_keys[OF f, of rt] structure_keys[OF f]
    symmetry_keys[OF f'] profile_keys[OF f'] golden_keys[OF f' g] pose_keys[OF f']
  show ?thesis
    unfolding r unconditional_metrics_def
    using k by (simp add: has_metric_def sub_dict_def)
qed

lemma get_point_unchecked_wrapped:
  assumes "list_all (\<lambda>v. v = 0) (visibility self)"
    and "map_of (index_map self) name = Some idx"
    and "- int (length (points self)) \<le> idx" and "idx < int (length (points self))"
  shows "get_point self name
           = Some (points self ! nat (if idx < 0 then int (length (points self)) + idx else idx))"
  using assms by (simp add: get_point_def py_index_def Let_def)

lemma resolves_all_found:
  assumes z: "list_all (\<lambda>v. v = 0) (visibility s)"
    and r: "resolves_all (index_map s) (length (points s))"
  shows "all_found s"
  unfolding all_found_def list_all_iff
proof
  fix n assume "n \<in> set used_names"
  with r obtain idx where "map_of (index_map s) n = Some idx"
    "- int (length (points s)) \<le> idx" "idx < int (length (points s))"
    by (auto simp: resolves_all_def list_all_iff split: option.splits)
  from get_point_unchecked_wrapped[OF z this] show "get_point s n \<noteq> None" by simp
qed

subsection \<open>All confidence values zero: the full metric set\<close>

lemma map_fixed: "list_all (\<lambda>x. f x = x) xs \<Longrightarrow> map f xs = xs"
  by (induction xs) auto

text \<open>
  C10. If every stored confidence value is 0, point lookup skips the threshold: it returns
  the point of every name that resolves to an index within the landmark sequence (a
  negative index counting from the end). The analysis result equals the result for the same
  landmarks with visibility and presence set to 1. And when every name the analyzers look
  up resolves, the result holds every metric that needs nothing but its points: no metric
  is omitted for lack of confidence.
\<close>

theorem zero_confidence_skips_threshold:
  assumes "init lms bs im = Inr a" and "list_all (\<lambda>v. v = 0) (visibility a)"
  shows "(\<forall>name idx. map_of (index_map a) name = Some idx \<and> - int (length lms) \<le> idx
             \<and> idx < int (length lms)
           \<longrightarrow> get_point a name
               = Some (points a ! nat (if idx < 0 then int (length lms) + idx else idx)))
       \<and> analyze_face_ratios rt lms bs im
           = analyze_face_ratios rt (map fully_confident lms) bs im
       \<and> (resolves_all (index_map a) (length lms)
           \<longrightarrow> list_all (\<lambda>p. has_metric (analyze_face_ratios rt lms bs im) (fst p) (snd p))
                 unconditional_metrics)"
proof -
  from assms(1) have a: "a = built_analyzer lms bs im" by (simp add: init_Inr)
  have len: "length (points a) = length lms"
    by (simp add: a built_analyzer_def length_normalized_points)
  have first: "\<forall>name idx. map_of (index_map a) name = Some idx \<and> - int (length lms) \<le> idx
             \<and> idx < int (length lms)
           \<longrightarrow> get_point a name
               = Some (points a ! nat (if idx < 0 then int (length lms) + idx else idx))"
    using get_point_unchecked_wrapped[OF assms(2)] len by auto
  have second: "analyze_face_ratios rt lms bs im
           = analyze_face_ratios rt (map fully_confident lms) bs im"
    using zero_confidence_same_result[OF assms] by simp
  have third: "resolves_all (index_map a) (length lms)
           \<longrightarrow> list_all (\<lambda>p. has_metric (analyze_face_ratios rt lms bs im) (fst p) (snd p))
                 unconditional_metrics"
  proof
    assume "resolves_all (index_map a) (length lms)"
    then have "all_found a" using resolves_all_found[OF assms(2)] len by simp
    with assms(1) show "list_all (\<lambda>p. has_metric (analyze_face_ratios rt lms bs im)
        (fst p) (snd p)) unconditional_metrics"
      by (rule full_metric_set)
  qed
  from first second third show ?thesis by blast
qed

lemma zero_confidence_fields:
  "has_coords (zero_confidence lm) = has_coords lm"
  "raw_point (zero_confidence lm) = raw_point lm"
  "get_visibility (zero_confidence lm) = 0"
  "get_presence (zero_confidence lm) = 0"
  by (simp_all add: zero_confidence_def has_coords_def raw_point_def lm_coords_def
      get_visibility_def get_presence_def cong: option.case_cong)

lemma length_tilted_landmarks: "length tilted_landmarks = 468"
  by (simp add: tilted_landmarks_def)

lemma init_unseen: "init unseen_landmarks None None = Inr unseen_analyzer"
proof -
  have t: "tilted_analyzer = built_analyzer tilted_landmarks None None"
    using init_tilted by (simp add: init_Inr)
  have h: "list_all has_coords unseen_landmarks"
    using has_coords_tilted
    by (simp add: unseen_landmarks_def list_all_map_eq zero_confidence_fields)
  have raw: "map raw_point unseen_landmarks = map raw_point tilted_landmarks"
    by (simp add: unseen_landmarks_def zero_confidence_fields)
  have v: "stored_visibility unseen_landmarks = replicate 468 0"
    by (simp add: stored_visibility_def unseen_landmarks_def list_all_map_eq
        zero_confidence_fields comp_def map_replicate_const length_tilted_landmarks
        list_all_iff)
  have "built_analyzer unseen_landmarks None None = unseen_analyzer"
    unfolding unseen_analyzer_def t by (simp add: built_analyzer_def raw v)
  with h show ?thesis by (simp add: init_Inr)
qed

lemma confident_unseen: "map fully_confident unseen_landmarks = tilted_landmarks"
proof -
  have "list_all (\<lambda>lm. fully_confident (zero_confidence lm) = lm) tilted_landmarks"
    by (simp add: tilted_landmarks_def list_all_update list_all_replicate fully_confident_def
        zero_confidence_def lm0_def visible_landmark_def)
  then have "map (\<lambda>lm. fully_confident (zero_confidence lm)) tilted_landmarks
      = tilted_landmarks"
    by (rule map_fixed)
  then show ?thesis by (simp add: unseen_landmarks_def comp_def)
qed

lemma resolves_fallback: "resolves_all FALLBACK_INDICES 468"
  by (simp add: resolves_all_def used_names_def FALLBACK_INDICES_def)

text \<open>
  C10 at the tilted detection with visibility and presence 0 throughout: every looked-up
  name resolves, the 26 unconditional metrics are all in the result, and the left canthal
  tilt is the \<open>-45\<close> degrees of the fully visible detection.
\<close>

theorem zero_confidence_skips_threshold_witness:
  "init unseen_landmarks None None = Inr unseen_analyzer
   \<and> list_all (\<lambda>v. v = 0) (visibility unseen_analyzer)
   \<and> resolves_all (index_map unseen_analyzer) (length unseen_landmarks)
   \<and> get_point unseen_analyzer ''L_eye_outer'' = Some (3/10, 2/5, 0)
   \<and> list_all (\<lambda>p. has_metric (analyze_face_ratios null_runtime unseen_landmarks None None)
                    (fst p) (snd p)) unconditional_metrics
   \<and> (\<exists>eyes. sub_dict (analyze_face_ratios null_runtime unseen_landmarks None None) ''eyes''
                = Some eyes
          \<and> metric_value_of eyes ''canthal_tilt_deg_L'' = Some (PFloat (- 45)))
   \<and> analyze_face_ratios null_runtime unseen_landmarks None None
       = analyze_face_ratios null_runtime (map fully_confident unseen_landmarks) None None"
proof -
  have z: "list_all (\<lambda>v. v = 0) (visibility unseen_analyzer)"
    by (simp add: unseen_analyzer_def list_all_replicate)
  have l: "length unseen_landmarks = 468"
    by (simp add: unseen_landmarks_def length_tilted_landmarks)
  have r: "resolves_all (index_map unseen_analyzer) (length unseen_landmarks)"
    by (simp add: l unseen_analyzer_def tilted_analyzer_def resolves_fallback)
  note t = zero_confidence_skips_threshold[OF init_unseen z, of null_runtime]
  from t r have m: "list_all (\<lambda>p. has_metric
      (analyze_face_ratios null_runtime unseen_landmarks None None) (fst p) (snd p))
      unconditional_metrics"
    by blast
  from t have e: "analyze_face_ratios null_runtime unseen_landmarks None None
       = analyze_face_ratios null_runtime (map fully_confident unseen_landmarks) None None"
    by blast
  have i: "map_of (index_map unseen_analyzer) ''L_eye_outer'' = Some 33"
    by (simp add: unseen_analyzer_def tilted_analyzer_def FALLBACK_INDICES_def)
  from t have "map_of (index_map unseen_analyzer) ''L_eye_outer'' = Some 33
        \<and> - int (length unseen_landmarks) \<le> 33 \<and> 33 < int (length unseen_landmarks)
      \<longrightarrow> get_point unseen_analyzer ''L_eye_outer''
          = Some (points unseen_analyzer
                  ! nat (if (33::int) < 0 then int (length unseen_landmarks) + 33 else 33))"
    by blast
  with i have g: "get_point unseen_analyzer ''L_eye_outer'' = Some (3/10, 2/5, 0)"
    by (simp add: l unseen_analyzer_def tilted_analyzer_def tilted_points_def)
  have c: "\<exists>eyes. sub_dict (analyze_face_ratios null_runtime unseen_landmarks None None)
        ''eyes'' = Some eyes
      \<and> metric_value_of eyes ''canthal_tilt_deg_L'' = Some (PFloat (- 45))"
    unfolding e confident_unseen
    using canthal_tilt_in_eyes result_regions(1)[OF init_tilted, of null_runtime]
    by (simp add: init_tilted)
  from init_unseen z r g m c e show ?thesis by blast
qed

subsection \<open>The threshold on presence\<close>

lemma get_point_presence:
  assumes "visibility a = map get_presence lms"
    and "\<not> list_all (\<lambda>lm. get_presence lm = 0) lms"
    and "visibility_threshold a = 3 / 10"
  shows "get_point a name = presence_lookup lms (index_map a) (points a) name"
proof -
  have "\<not> list_all (\<lambda>v. v = 0) (visibility a)"
    using assms(2) by (simp add: assms(1) list_all_map_eq)
  then show ?thesis
    by (simp add: get_point_def presence_lookup_def assms(1,3) not_less
        split: option.splits)
qed

text \<open>
  C3 (as amended). If every landmark's visibility is exactly 0, the analyzer stores the
  presence values as its confidence values, and the analysis result equals the result for
  the same input with each visibility replaced by the corresponding presence. Unless every
  presence value is 0 as well, every point lookup applies the threshold to presence: it
  returns the point exactly when the name resolves within the point array and the presence
  at that index is at least 0.3.
\<close>

theorem presence_replaces_zero_visibility:
  assumes "list_all (\<lambda>lm. lm_visibility lm = Some 0) lms"
  shows "(\<forall>a. init lms bs im = Inr a \<longrightarrow>
            visibility a = map get_presence lms
            \<and> (\<not> list_all (\<lambda>lm. get_presence lm = 0) lms \<longrightarrow>
                 (\<forall>name. get_point a name
                            = presence_lookup lms (index_map a) (points a) name)))
       \<and> analyze_face_ratios rt lms bs im
           = analyze_face_ratios rt (map presence_as_visibility lms) bs im"
proof -
  note old = presence_same_result[OF assms, of bs im rt]
  have "\<forall>a. init lms bs im = Inr a \<longrightarrow>
            visibility a = map get_presence lms
            \<and> (\<not> list_all (\<lambda>lm. get_presence lm = 0) lms \<longrightarrow>
                 (\<forall>name. get_point a name
                            = presence_lookup lms (index_map a) (points a) name))"
  proof (intro allI impI conjI)
    fix a assume i: "init lms bs im = Inr a"
    with old show v: "visibility a = map get_presence lms" by blast
    fix name assume nz: "\<not> list_all (\<lambda>lm. get_presence lm = 0) lms"
    have t: "visibility_threshold a = 3 / 10"
      using i by (simp add: init_Inr built_analyzer_def)
    show "get_point a name = presence_lookup lms (index_map a) (points a) name"
      by (rule get_point_presence[OF v nz t])
  qed
  with old show ?thesis by blast
qed

lemma symmetry_score_present:
  assumes "get_point s ''L_eye_outer'' = Some l" and "get_point s ''R_eye_outer'' = Some r"
  shows "py_in ''midline_symmetry_score'' (analyze_symmetry s)"
proof -
  have "fst (symmetry_pair s (''L_eye_outer'', ''R_eye_outer'') ([], [])) \<noteq> []"
    by (simp add: symmetry_pair_def Let_def assms)
  then have "fst (fold (symmetry_pair s) symmetry_pairs ([], [])) \<noteq> []"
    by (simp add: symmetry_pairs_def symmetry_pair_grows)
  then show ?thesis
    by (simp add: analyze_symmetry_def Let_def case_prod_beta py_in_def map_of_py_setitem)
qed

lemma symmetry_in_result:
  assumes "init lms bs im = Inr a"
    and "get_point a ''L_eye_outer'' = Some l" and "get_point a ''R_eye_outer'' = Some r"
  shows "has_metric (analyze_face_ratios rt lms bs im) ''symmetry'' ''midline_symmetry_score''"
proof -
  let ?a = "a\<lparr>self_structure := Some (analyze_structure a)\<rparr>"
  have "py_in ''midline_symmetry_score'' (analyze_symmetry ?a)"
    by (rule symmetry_score_present[of _ l r]) (simp_all add: get_point_structure assms(2,3))
  with result_all_regions[OF assms(1), of rt] show ?thesis
    by (auto simp: has_metric_def sub_dict_def)
qed

lemma get_point_zero_pair:
  "get_point (pair_analyzer zero_confidence_pair [0, 0]) ''L_eye_outer'' = Some (0, 0, 0)"
  "get_point (pair_analyzer zero_confidence_pair [0, 0]) ''R_eye_outer'' = Some (2, 0, 0)"
  by (simp_all add: get_point_def pair_analyzer_def eye_pair_map_def pair_points_def
      py_index_def)

text \<open>
  C3 as stated fails: with every visibility 0 and every presence 0, below the threshold of
  0.3, point lookup still returns both outer-eye points and the result holds the symmetry
  score computed from them. The constructor stores the presence values, and
  \<^verbatim>\<open>_get_point\<close> skips the threshold when all stored values are 0.
\<close>

theorem presence_threshold_skipped_at_zero:
  "list_all (\<lambda>lm. lm_visibility lm = Some 0) zero_confidence_pair
   \<and> list_all (\<lambda>lm. get_presence lm < 3 / 10) zero_confidence_pair
   \<and> init zero_confidence_pair None (Some eye_pair_map)
       = Inr (pair_analyzer zero_confidence_pair [0, 0])
   \<and> get_point (pair_analyzer zero_confidence_pair [0, 0]) ''L_eye_outer'' = Some (0, 0, 0)
   \<and> get_point (pair_analyzer zero_confidence_pair [0, 0]) ''R_eye_outer'' = Some (2, 0, 0)
   \<and> has_metric (analyze_face_ratios null_runtime zero_confidence_pair None (Some eye_pair_map))
        ''symmetry'' ''midline_symmetry_score''"
  using symmetry_in_result[OF init_pairs(4) get_point_zero_pair, of null_runtime]
  by (simp add: init_pairs(4) get_point_zero_pair)
     (simp add: zero_confidence_pair_def landmark_at_def get_presence_def)

lemma init_trio: "init presence_trio None (Some trio_map) = Inr trio_analyzer"
proof -
  have c: "chosen_index_map (Some trio_map) = trio_map"
    by (simp add: chosen_index_map_def trio_map_def)
  have raw: "map raw_point presence_trio = [(0, 0, 0), (2, 0, 0), (1, 1, 0)]"
    by (simp add: presence_trio_def raw_point_at)
  have g: "py_get trio_map ''L_eye_outer'' 33 = 0" "py_get trio_map ''R_eye_outer'' 263 = 1"
    "py_get trio_map ''L_cheek'' 205 = 205" "py_get trio_map ''R_cheek'' 425 = 425"
    by (simp_all add: py_get_def trio_map_def)
  have "roll_angle_of trio_map [(0, 0, 0), (2, 0, 0), (1, 1, 0)] = Some 0"
    by (simp add: roll_angle_of_def g py_index_def vx_def vy_def arctan2_def)
  then have n: "normalized_points trio_map [(0, 0, 0), (2, 0, 0), (1, 1, 0)]
      = [(0, 0, 0), (2, 0, 0), (1, 1, 0)]"
    by (simp add: normalized_points_def rotate_xy_0)
  have s: "spec_scale_basis trio_map [(0, 0, 0), (2, 0, 0), (1, 1, 0)] = 2"
    by (simp add: spec_scale_basis_def landmark_distance_def g py_index_def exceeds_def
        vx_def vy_def)
  have v: "stored_visibility presence_trio = [9 / 10, 9 / 10, 1 / 10]"
    by (simp add: stored_visibility_def presence_trio_def confidence_at)
  have h: "list_all has_coords presence_trio"
    by (simp add: presence_trio_def has_coords_at)
  show ?thesis
    by (simp add: init_Inr h built_analyzer_def trio_analyzer_def c raw n s v)
qed

text \<open>
  C3 (as amended) at three landmarks with visibility 0: the two outer eye corners, with
  presence 0.9, are found and give the symmetry score; the nose tip, with presence 0.1, is
  rejected and the yaw angle is omitted.
\<close>

theorem presence_replaces_zero_visibility_witness:
  "list_all (\<lambda>lm. lm_visibility lm = Some 0) presence_trio
   \<and> \<not> list_all (\<lambda>lm. get_presence lm = 0) presence_trio
   \<and> init presence_trio None (Some trio_map) = Inr trio_analyzer
   \<and> visibility trio_analyzer = map get_presence presence_trio
   \<and> get_point trio_analyzer ''L_eye_outer'' = Some (0, 0, 0)
   \<and> get_point trio_analyzer ''R_eye_outer'' = Some (2, 0, 0)
   \<and> get_point trio_analyzer ''nose_tip'' = None
   \<and> has_metric (analyze_face_ratios null_runtime presence_trio None (Some trio_map))
        ''symmetry'' ''midline_symmetry_score''
   \<and> \<not> has_metric (analyze_face_ratios null_runtime presence_trio None (Some trio_map))
        ''pose_estimation'' ''yaw_deg''
   \<and> analyze_face_ratios null_runtime presence_trio None (Some trio_map)
       = analyze_face_ratios null_runtime (map presence_as_visibility presence_trio)
           None (Some trio_map)"
proof -
  have h: "list_all (\<lambda>lm. lm_visibility lm = Some 0) presence_trio"
    by (simp add: presence_trio_def landmark_at_def)
  have nz: "\<not> list_all (\<lambda>lm. get_presence lm = 0) presence_trio"
    by (simp add: presence_trio_def confidence_at)
  note t = presence_replaces_zero_visibility[OF h, of None "Some trio_map" null_runtime]
  from t init_trio nz have v: "visibility trio_analyzer = map get_presence presence_trio"
    and lk: "\<And>name. get_point trio_analyzer name
        = presence_lookup presence_trio (index_map trio_analyzer) (points trio_analyzer) name"
    by blast+
  have g: "get_point trio_analyzer ''L_eye_outer'' = Some (0, 0, 0)"
    "get_point trio_analyzer ''R_eye_outer'' = Some (2, 0, 0)"
    "get_point trio_analyzer ''nose_tip'' = None"
    unfolding lk
    by (simp_all add: presence_lookup_def trio_analyzer_def trio_map_def presence_trio_def
        confidence_at py_index_def)
  have sy: "has_metric (analyze_face_ratios null_runtime presence_trio None (Some trio_map))
        ''symmetry'' ''midline_symmetry_score''"
    by (rule symmetry_in_result[OF init_trio g(1) g(2)])
  let ?a = "trio_analyzer\<lparr>self_structure := Some (analyze_structure trio_analyzer)\<rparr>"
  have "map_of (estimate_pose ?a) ''yaw_deg'' = None"
    by (simp add: estimate_pose_def get_point_structure g Let_def map_of_py_setitem
        split: option.splits)
  with result_all_regions[OF init_trio, of null_runtime]
  have po: "\<not> has_metric (analyze_face_ratios null_runtime presence_trio None (Some trio_map))
        ''pose_estimation'' ''yaw_deg''"
    by (auto simp: has_metric_def sub_dict_def py_in_def)
  from t have e: "analyze_face_ratios null_runtime presence_trio None (Some trio_map)
       = analyze_face_ratios null_runtime (map presence_as_visibility presence_trio)
           None (Some trio_map)"
    by blast
  from h nz init_trio v g sy po e show ?thesis by blast
qed

end
